theory Spec2Isabelle
  imports Complex_Main
begin

text \<open>
  A shallow embedding of the stores of the Om Services admin panel: the payroll
  calculation, the permission check, the remote-store gateway, and the document,
  customer, builder and attendance stores with the operations that link them. Each
  definition follows the source function of the same name; the definitions come first, the
  properties after them.
\<close>

section \<open>Runtime values: strings, numbers, dates, thrown errors\<close>

text \<open>
  Strings are \<open>char list\<close>; the string helpers below are the JavaScript string methods
  the stores call, on ASCII text. A JavaScript \<open>number\<close> that holds money or hours is a
  \<open>js_number\<close>, a double with the arithmetic of IEEE 754 (see the numbers below).
  Counters, lengths and years are \<open>nat\<close>, epoch milliseconds are \<open>int\<close>.
\<close>

definition digit :: "nat \<Rightarrow> char" where
  "digit n = ''0123456789'' ! n"

fun toString_nat :: "nat \<Rightarrow> string" where
  "toString_nat n = (if n < 10 then [digit n] else toString_nat (n div 10) @ [digit (n mod 10)])"

declare toString_nat.simps [simp del]

definition toString_int :: "int \<Rightarrow> string" where
  "toString_int i = (if i < 0 then CHR ''-'' # toString_nat (nat (- i)) else toString_nat (nat i))"

definition padStart :: "nat \<Rightarrow> char \<Rightarrow> string \<Rightarrow> string" where
  "padStart n c s = replicate (n - length s) c @ s"

definition toUpperCase_char :: "char \<Rightarrow> char" where
  "toUpperCase_char c =
     (let n = (of_char c :: nat) in if 97 \<le> n \<and> n \<le> 122 then char_of (n - 32) else c)"

definition toLowerCase_char :: "char \<Rightarrow> char" where
  "toLowerCase_char c =
     (let n = (of_char c :: nat) in if 65 \<le> n \<and> n \<le> 90 then char_of (n + 32) else c)"

definition toUpperCase :: "string \<Rightarrow> string" where
  "toUpperCase s = map toUpperCase_char s"

definition toLowerCase :: "string \<Rightarrow> string" where
  "toLowerCase s = map toLowerCase_char s"

text \<open>\<open>s.replace(c, '')\<close> with a one-character string pattern: only the first occurrence goes.\<close>

fun remove_first :: "char \<Rightarrow> string \<Rightarrow> string" where
  "remove_first c [] = []"
| "remove_first c (x # xs) = (if x = c then xs else x # remove_first c xs)"

fun startsWith :: "string \<Rightarrow> string \<Rightarrow> bool" where
  "startsWith s [] = True"
| "startsWith [] (p # ps) = False"
| "startsWith (x # xs) (p # ps) = (x = p \<and> startsWith xs ps)"

text \<open>\<open>s.includes(t)\<close>: \<open>t\<close> occurs in \<open>s\<close> as a contiguous substring.\<close>

fun includes_str :: "string \<Rightarrow> string \<Rightarrow> bool" where
  "includes_str [] t = (t = [])"
| "includes_str (x # xs) t = (startsWith (x # xs) t \<or> includes_str xs t)"

text \<open>\<open>a || b\<close> on an optional string: \<open>undefined\<close> and the empty string are falsy.\<close>

definition or_str :: "string option \<Rightarrow> string \<Rightarrow> string" where
  "or_str a b = (case a of None \<Rightarrow> b | Some s \<Rightarrow> if s = [] then b else s)"

definition truthy_str :: "string \<Rightarrow> bool" where
  "truthy_str s = (s \<noteq> [])"

text \<open>\<open>xs.find(p)\<close>: the first element that satisfies \<open>p\<close>, or \<open>undefined\<close>.\<close>

abbreviation find_first :: "('a \<Rightarrow> bool) \<Rightarrow> 'a list \<Rightarrow> 'a option" where
  "find_first \<equiv> List.find"

text \<open>\<open>xs[xs.length - 1]\<close>: \<open>undefined\<close> on the empty array.\<close>

definition last_elem :: "'a list \<Rightarrow> 'a option" where
  "last_elem xs = (if xs = [] then None else Some (last xs))"

subsection \<open>Numbers\<close>

text \<open>
  A JavaScript \<open>number\<close> is an IEEE 754 binary64 value: a finite double, given by its
  value, an infinity, or \<open>NaN\<close>. Every arithmetic operation takes the exact result and
  rounds it to the nearest double, ties to the even significand; \<open>fl\<close> is that rounding.
  A result of magnitude at least \<open>2^1024\<close> after rounding is an infinity, and below
  \<open>2^-1022\<close> the doubles are the multiples of \<open>2^-1074\<close>. Negative zero is identified with
  zero: the operations modelled here never divide by a variable and in no other way tell
  the two apart. \<open>Num x\<close> is a double when \<open>fl x = Num x\<close>; the operations are defined on
  every \<open>Num x\<close>, so what is proved for all arguments holds for all doubles, and the
  concrete inputs below are doubles.
\<close>

datatype js_number = Num real | Infinity | NegInfinity | NaN

text \<open>The number of binary digits of a natural number.\<close>

fun bitlength :: "nat \<Rightarrow> nat" where
  "bitlength n = (if n = 0 then 0 else Suc (bitlength (n div 2)))"

declare bitlength.simps [simp del]

definition pow2 :: "int \<Rightarrow> real" where
  "pow2 k = (if 0 \<le> k then 2 ^ nat k else 1 / 2 ^ nat (- k))"

text \<open>For \<open>x > 0\<close>, the exponent \<open>e\<close> with \<open>2^e \<le> x < 2^(e+1)\<close>.\<close>

definition ilog2 :: "real \<Rightarrow> int" where
  "ilog2 x = (if 1 \<le> x then int (bitlength (nat \<lfloor>x\<rfloor>)) - 1
              else - int (bitlength (nat (\<lceil>1 / x\<rceil> - 1))))"

definition round_half_even :: "real \<Rightarrow> int" where
  "round_half_even r =
     (let f = \<lfloor>r\<rfloor> in
      if r - of_int f < 1 / 2 then f
      else if 1 / 2 < r - of_int f then f + 1
      else if even f then f else f + 1)"

definition fl :: "real \<Rightarrow> js_number" where
  "fl x =
     (if x = 0 then Num 0
      else
        (let e = max (ilog2 \<bar>x\<bar>) (- 1022);
             q = pow2 (e - 52);
             y = of_int (round_half_even (\<bar>x\<bar> / q)) * q
         in if pow2 1024 \<le> y then (if 0 < x then Infinity else NegInfinity)
            else Num (if 0 < x then y else - y)))"

fun fneg :: "js_number \<Rightarrow> js_number" where
  "fneg (Num x) = Num (- x)"
| "fneg Infinity = NegInfinity"
| "fneg NegInfinity = Infinity"
| "fneg NaN = NaN"

fun fadd :: "js_number \<Rightarrow> js_number \<Rightarrow> js_number" where
  "fadd (Num x) (Num y) = fl (x + y)"
| "fadd NaN b = NaN"
| "fadd a NaN = NaN"
| "fadd Infinity NegInfinity = NaN"
| "fadd NegInfinity Infinity = NaN"
| "fadd Infinity b = Infinity"
| "fadd a Infinity = Infinity"
| "fadd NegInfinity b = NegInfinity"
| "fadd a NegInfinity = NegInfinity"

definition fsub :: "js_number \<Rightarrow> js_number \<Rightarrow> js_number" where
  "fsub a b = fadd a (fneg b)"

fun fmul :: "js_number \<Rightarrow> js_number \<Rightarrow> js_number" where
  "fmul (Num x) (Num y) = fl (x * y)"
| "fmul NaN b = NaN"
| "fmul a NaN = NaN"
| "fmul (Num x) Infinity = (if x = 0 then NaN else if 0 < x then Infinity else NegInfinity)"
| "fmul (Num x) NegInfinity = (if x = 0 then NaN else if 0 < x then NegInfinity else Infinity)"
| "fmul Infinity (Num y) = (if y = 0 then NaN else if 0 < y then Infinity else NegInfinity)"
| "fmul NegInfinity (Num y) = (if y = 0 then NaN else if 0 < y then NegInfinity else Infinity)"
| "fmul Infinity Infinity = Infinity"
| "fmul Infinity NegInfinity = NegInfinity"
| "fmul NegInfinity Infinity = NegInfinity"
| "fmul NegInfinity NegInfinity = Infinity"

fun fdiv :: "js_number \<Rightarrow> js_number \<Rightarrow> js_number" where
  "fdiv (Num x) (Num y) =
     (if y = 0 then (if x = 0 then NaN else if 0 < x then Infinity else NegInfinity)
      else fl (x / y))"
| "fdiv NaN b = NaN"
| "fdiv a NaN = NaN"
| "fdiv (Num x) Infinity = Num 0"
| "fdiv (Num x) NegInfinity = Num 0"
| "fdiv Infinity (Num y) = (if 0 \<le> y then Infinity else NegInfinity)"
| "fdiv NegInfinity (Num y) = (if 0 \<le> y then NegInfinity else Infinity)"
| "fdiv Infinity Infinity = NaN"
| "fdiv Infinity NegInfinity = NaN"
| "fdiv NegInfinity Infinity = NaN"
| "fdiv NegInfinity NegInfinity = NaN"

text \<open>\<open>Math.max(a, b)\<close>: \<open>NaN\<close> when either argument is.\<close>

fun Math_max :: "js_number \<Rightarrow> js_number \<Rightarrow> js_number" where
  "Math_max (Num x) (Num y) = Num (max x y)"
| "Math_max NaN b = NaN"
| "Math_max a NaN = NaN"
| "Math_max Infinity b = Infinity"
| "Math_max a Infinity = Infinity"
| "Math_max NegInfinity b = b"
| "Math_max a NegInfinity = a"

text \<open>
  \<open>Math.round(x)\<close>: the integer nearest to the double \<open>x\<close>, a half rounded up. The result
  is exact: it is an integer of magnitude below \<open>2^52\<close>, or \<open>x\<close> itself.
\<close>

fun Math_round :: "js_number \<Rightarrow> js_number" where
  "Math_round (Num x) = Num (of_int \<lfloor>x + 1 / 2\<rfloor>)"
| "Math_round a = a"

text \<open>The number a \<open>Date\<close> returns from \<open>getTime()\<close>.\<close>

definition number_of_int :: "int \<Rightarrow> js_number" where
  "number_of_int i = fl (of_int i)"

text \<open>
  A \<open>Date\<close> is its epoch value (\<open>getTime\<close>, milliseconds) together with the local
  calendar fields the stores read from it; \<open>msOfDay\<close> is the local time of day in
  milliseconds (hours, minutes, seconds and milliseconds in one number). The conversion
  between the two is the runtime's. All clock reads of one operation return the same
  instant \<open>now\<close>, which is an input of the operation.
\<close>

record JsDate =
  getTime :: int
  getFullYear :: nat
  getMonth :: nat
  getDate :: nat
  msOfDay :: nat

text \<open>\<open>new Date(d.getFullYear(), d.getMonth(), d.getDate())\<close>: local midnight of that day.\<close>

definition startOfDay :: "JsDate \<Rightarrow> JsDate" where
  "startOfDay d = d\<lparr>getTime := getTime d - int (msOfDay d), msOfDay := 0\<rparr>"

text \<open>\<open>d.setHours(h, 0, 0, 0)\<close> on a date at local midnight.\<close>

definition setHours :: "nat \<Rightarrow> JsDate \<Rightarrow> JsDate" where
  "setHours h d =
     d\<lparr>getTime := getTime d - int (msOfDay d) + int (h * 3600000), msOfDay := h * 3600000\<rparr>"

text \<open>
  \<open>d.toDateString()\<close> prints weekday, month, day and year of the local date; two such
  strings are equal exactly when year, month and day are, so the triple stands for the string.
\<close>

definition toDateString :: "JsDate \<Rightarrow> nat \<times> nat \<times> nat" where
  "toDateString d = (getFullYear d, getMonth d, getDate d)"

text \<open>
  What a \<open>throw\<close> carries: an \<open>Error\<close> object with its message (a \<open>TypeError\<close> is one),
  or any other value.
\<close>

datatype thrown = Error string | NonError

section \<open>Payroll: \<open>calculateSalary\<close> (src/hooks/useSalary.tsx)\<close>

record SalaryAllowance =
  al_id :: string
  al_type :: string
  al_amount :: js_number
  al_description :: "string option"

record SalaryDeduction =
  de_id :: string
  de_type :: string
  de_amount :: js_number
  de_description :: "string option"

record BankDetails =
  accountNumber :: string
  bankName :: string
  ifscCode :: string
  accountHolderName :: string

record StaffSalaryConfig =
  sc_id :: string
  sc_userId :: string
  baseSalary :: js_number
  allowances :: "SalaryAllowance list"
  deductions :: "SalaryDeduction list"
  overtimeRate :: js_number
  paymentMethod :: string
  bankDetails :: "BankDetails option"
  isActive :: bool
  effectiveFrom :: JsDate
  sc_createdAt :: JsDate
  sc_updatedAt :: JsDate

record Salary =
  gross :: js_number
  net :: js_number

text \<open>\<open>xs.reduce((sum, x) => sum + f(x), 0)\<close>: a left fold from 0, each addition rounded.\<close>

definition reduce_sum :: "('a \<Rightarrow> js_number) \<Rightarrow> 'a list \<Rightarrow> js_number" where
  "reduce_sum f xs = foldl (\<lambda>sum x. fadd sum (f x)) (Num 0) xs"

text \<open>
  \<open>calculateSalary(config, overtimeHours = 0, bonus = 0)\<close>: an argument left out is
  \<open>None\<close> and takes its default.
\<close>

definition calculateSalary ::
  "StaffSalaryConfig \<Rightarrow> js_number option \<Rightarrow> js_number option \<Rightarrow> Salary" where
  "calculateSalary config overtimeHours_arg bonus_arg =
     (let overtimeHours = (case overtimeHours_arg of None \<Rightarrow> Num 0 | Some h \<Rightarrow> h);
          bonus = (case bonus_arg of None \<Rightarrow> Num 0 | Some b \<Rightarrow> b);
          totalAllowances = reduce_sum al_amount (allowances config);
          totalDeductions = reduce_sum de_amount (deductions config);
          overtimeAmount = fmul overtimeHours (overtimeRate config);
          grossSalary = fadd (fadd (fadd (baseSalary config) totalAllowances) overtimeAmount) bonus;
          netSalary = fsub grossSalary totalDeductions
      in \<lparr>gross = grossSalary, net = netSalary\<rparr>)"

section \<open>Session: \<open>hasPermission\<close> (useAuth)\<close>

record Permission =
  pm_id :: string
  pm_module :: string
  pm_action :: string
  granted :: bool

text \<open>
  Modelled from the spec: the \<open>User\<close> type of \<open>src/types\<close> is not among the sources; its
  fields are those of the mock users in useAuth. A role is the string the code compares.
\<close>

record User =
  u_id :: string
  u_email :: string
  u_name :: string
  u_role :: string
  permissions :: "Permission list"
  u_isActive :: bool
  u_createdAt :: JsDate
  lastLogin :: "JsDate option"

definition hasPermission :: "User option \<Rightarrow> string \<Rightarrow> string \<Rightarrow> bool" where
  "hasPermission user module' action =
     (case user of
        None \<Rightarrow> False
      | Some u \<Rightarrow>
          if u_role u = ''main_admin'' then True
          else list_ex (\<lambda>p. pm_module p = module' \<and> pm_action p = action \<and> granted p)
                 (permissions u))"

section \<open>Remote-store gateway: \<open>DatabaseService.query\<close> (src/services/databaseService.ts)\<close>

record DatabaseConfig =
  host :: string
  port :: nat
  database :: string
  username :: string
  password :: string
  ssl :: string

text \<open>A row of \<open>data?: any[]\<close> is a list of column names with their values as text.\<close>

type_synonym row = "(string \<times> string) list"

record QueryResult =
  success :: bool
  data :: "row list option"
  error :: "string option"
  affectedRows :: "nat option"

record DatabaseService =
  db_config :: "DatabaseConfig option"
  db_isConnected :: bool

datatype param = PString string | PNumber real | PNull

text \<open>
  The network is an input: \<open>fetch\<close> maps the request to its outcome, a rejection with the
  thrown value or a response. A response has its \<open>ok\<close> flag and the outcomes of reading
  its body as JSON and as text, each of which may reject. The operation returns its result
  together with the list of requests it sent.
\<close>

record Request =
  url :: string
  http_method :: string
  body_config :: DatabaseConfig
  body_sql :: string
  body_params :: "param list"

record Response =
  ok :: bool
  json :: "thrown + QueryResult"
  text_body :: "thrown + string"

datatype fetch_outcome = Rejects thrown | Resolves Response

definition try_catch :: "(thrown + 'a) \<Rightarrow> (thrown \<Rightarrow> thrown + 'a) \<Rightarrow> thrown + 'a" where
  "try_catch body handler = (case body of Inl e \<Rightarrow> handler e | Inr v \<Rightarrow> Inr v)"

definition failure :: "string \<Rightarrow> QueryResult" where
  "failure msg = \<lparr>success = False, data = None, error = Some msg, affectedRows = None\<rparr>"

definition query ::
  "DatabaseService \<Rightarrow> (Request \<Rightarrow> fetch_outcome) \<Rightarrow> string \<Rightarrow> param list
     \<Rightarrow> (thrown + QueryResult) \<times> Request list" where
  "query svc fetch sql params =
     (case db_config svc of
        None \<Rightarrow> (Inr (failure ''Database not connected''), [])
      | Some cfg \<Rightarrow>
          if \<not> db_isConnected svc then (Inr (failure ''Database not connected''), [])
          else
            (let request = \<lparr>url = ''/api/db-query.php'', http_method = ''POST'', body_config = cfg,
                            body_sql = sql, body_params = params\<rparr>
             in (try_catch
                   (case fetch request of
                      Rejects e \<Rightarrow> Inl e
                    | Resolves response \<Rightarrow>
                        if ok response then json response
                        else (case text_body response of
                                Inl e \<Rightarrow> Inl e
                              | Inr err \<Rightarrow> Inr (failure (''Query failed: '' @ err))))
                   (\<lambda>e. Inr (failure (case e of Error msg \<Rightarrow> msg
                                           | NonError \<Rightarrow> ''Unknown database error''))),
                 [request])))"

section \<open>Entities: documents, customers, builders\<close>

text \<open>
  Modelled from the spec: the entity types of \<open>src/types\<close> are not among the sources. The
  fields are those the stores read and write; the document statuses are the progression of
  the specification (and of the schema in Settings.tsx). A document type is the string the
  code upper-cases. Field names carry a prefix where two entities share a name.
\<close>

datatype DocumentStatus =
  pending_collection | collected | data_entry_pending | data_entry_completed
  | registration_pending | registered | ready_for_delivery | delivered

record DocumentFile =
  f_id :: string
  f_name :: string
  f_type :: string
  f_url :: string
  uploadedBy :: string
  uploadedAt :: JsDate

text \<open>
  \<open>documentType\<close> is optional in the model because \<open>createDocument\<close> stores
  \<open>data.documentType!\<close>, which is \<open>undefined\<close> when the caller gave none.
\<close>

record Document =
  d_id :: string
  documentNumber :: string
  customerName :: string
  customerPhone :: string
  customerEmail :: "string option"
  builderName :: string
  propertyDetails :: string
  documentType :: "string option"
  d_status :: DocumentStatus
  collectionDate :: "JsDate option"
  dataEntryDate :: "JsDate option"
  registrationDate :: "JsDate option"
  deliveryDate :: "JsDate option"
  assignedTo :: "string option"
  d_notes :: "string list"
  files :: "DocumentFile list"
  d_createdAt :: JsDate
  d_updatedAt :: JsDate

text \<open>
  \<open>Partial<Document>\<close>: a field is \<open>None\<close> when the object does not have it. (An
  object that has the key with the value \<open>undefined\<close> is not told apart from one
  without the key.)
\<close>

record PartialDocument =
  pd_id :: "string option"
  pd_documentNumber :: "string option"
  pd_customerName :: "string option"
  pd_customerPhone :: "string option"
  pd_customerEmail :: "string option"
  pd_builderName :: "string option"
  pd_propertyDetails :: "string option"
  pd_documentType :: "string option"
  pd_status :: "DocumentStatus option"
  pd_collectionDate :: "JsDate option"
  pd_dataEntryDate :: "JsDate option"
  pd_registrationDate :: "JsDate option"
  pd_deliveryDate :: "JsDate option"
  pd_assignedTo :: "string option"
  pd_notes :: "string list option"
  pd_files :: "DocumentFile list option"
  pd_createdAt :: "JsDate option"
  pd_updatedAt :: "JsDate option"

definition no_document_fields :: PartialDocument where
  "no_document_fields =
     \<lparr>pd_id = None, pd_documentNumber = None, pd_customerName = None, pd_customerPhone = None,
      pd_customerEmail = None, pd_builderName = None, pd_propertyDetails = None,
      pd_documentType = None, pd_status = None, pd_collectionDate = None,
      pd_dataEntryDate = None, pd_registrationDate = None, pd_deliveryDate = None,
      pd_assignedTo = None, pd_notes = None, pd_files = None, pd_createdAt = None,
      pd_updatedAt = None\<rparr>"

text \<open>\<open>x ?? d\<close> for a field of a spread: the later object's value when it has the field.\<close>

definition or_field :: "'a option \<Rightarrow> 'a \<Rightarrow> 'a" where
  "or_field a d = (case a of None \<Rightarrow> d | Some v \<Rightarrow> v)"

definition or_opt :: "'a option \<Rightarrow> 'a option \<Rightarrow> 'a option" where
  "or_opt a d = (case a of None \<Rightarrow> d | Some v \<Rightarrow> Some v)"

text \<open>\<open>{ ...doc, ...data }\<close>\<close>

definition spread_Document :: "Document \<Rightarrow> PartialDocument \<Rightarrow> Document" where
  "spread_Document doc p =
     \<lparr>d_id = or_field (pd_id p) (d_id doc),
      documentNumber = or_field (pd_documentNumber p) (documentNumber doc),
      customerName = or_field (pd_customerName p) (customerName doc),
      customerPhone = or_field (pd_customerPhone p) (customerPhone doc),
      customerEmail = or_opt (pd_customerEmail p) (customerEmail doc),
      builderName = or_field (pd_builderName p) (builderName doc),
      propertyDetails = or_field (pd_propertyDetails p) (propertyDetails doc),
      documentType = or_opt (pd_documentType p) (documentType doc),
      d_status = or_field (pd_status p) (d_status doc),
      collectionDate = or_opt (pd_collectionDate p) (collectionDate doc),
      dataEntryDate = or_opt (pd_dataEntryDate p) (dataEntryDate doc),
      registrationDate = or_opt (pd_registrationDate p) (registrationDate doc),
      deliveryDate = or_opt (pd_deliveryDate p) (deliveryDate doc),
      assignedTo = or_opt (pd_assignedTo p) (assignedTo doc),
      d_notes = or_field (pd_notes p) (d_notes doc),
      files = or_field (pd_files p) (files doc),
      d_createdAt = or_field (pd_createdAt p) (d_createdAt doc),
      d_updatedAt = or_field (pd_updatedAt p) (d_updatedAt doc)\<rparr>"

record Customer =
  c_id :: string
  c_name :: string
  c_phone :: string
  c_email :: "string option"
  c_address :: string
  c_documents :: "string list"
  c_createdAt :: JsDate

record PartialCustomer =
  pc_id :: "string option"
  pc_name :: "string option"
  pc_phone :: "string option"
  pc_email :: "string option"
  pc_address :: "string option"
  pc_documents :: "string list option"
  pc_createdAt :: "JsDate option"

definition no_customer_fields :: PartialCustomer where
  "no_customer_fields =
     \<lparr>pc_id = None, pc_name = None, pc_phone = None, pc_email = None, pc_address = None,
      pc_documents = None, pc_createdAt = None\<rparr>"

definition spread_Customer :: "Customer \<Rightarrow> PartialCustomer \<Rightarrow> Customer" where
  "spread_Customer c p =
     \<lparr>c_id = or_field (pc_id p) (c_id c),
      c_name = or_field (pc_name p) (c_name c),
      c_phone = or_field (pc_phone p) (c_phone c),
      c_email = or_opt (pc_email p) (c_email c),
      c_address = or_field (pc_address p) (c_address c),
      c_documents = or_field (pc_documents p) (c_documents c),
      c_createdAt = or_field (pc_createdAt p) (c_createdAt c)\<rparr>"

record Builder =
  b_id :: string
  b_name :: string
  contactPerson :: string
  b_phone :: string
  b_email :: "string option"
  b_address :: string
  registrationNumber :: "string option"
  b_documents :: "string list"
  b_createdAt :: JsDate

record PartialBuilder =
  pb_id :: "string option"
  pb_name :: "string option"
  pb_contactPerson :: "string option"
  pb_phone :: "string option"
  pb_email :: "string option"
  pb_address :: "string option"
  pb_registrationNumber :: "string option"
  pb_documents :: "string list option"
  pb_createdAt :: "JsDate option"

definition no_builder_fields :: PartialBuilder where
  "no_builder_fields =
     \<lparr>pb_id = None, pb_name = None, pb_contactPerson = None, pb_phone = None, pb_email = None,
      pb_address = None, pb_registrationNumber = None, pb_documents = None,
      pb_createdAt = None\<rparr>"

definition spread_Builder :: "Builder \<Rightarrow> PartialBuilder \<Rightarrow> Builder" where
  "spread_Builder b p =
     \<lparr>b_id = or_field (pb_id p) (b_id b),
      b_name = or_field (pb_name p) (b_name b),
      contactPerson = or_field (pb_contactPerson p) (contactPerson b),
      b_phone = or_field (pb_phone p) (b_phone b),
      b_email = or_opt (pb_email p) (b_email b),
      b_address = or_field (pb_address p) (b_address b),
      registrationNumber = or_opt (pb_registrationNumber p) (registrationNumber b),
      b_documents = or_field (pb_documents p) (b_documents b),
      b_createdAt = or_field (pb_createdAt p) (b_createdAt b)\<rparr>"

section \<open>Store state and the remote answers\<close>

text \<open>
  Every store operation takes the connection flag of \<open>useDatabase\<close> and the in-memory
  list (or lists) of its provider as they are at the call (the closure of the latest
  render), and returns its result with the list after it; a \<open>throw\<close> is the result
  \<open>Inl\<close>. The \<open>loading\<close> flags are not modelled: every operation leaves them \<open>false\<close>.
\<close>

record Remote =
  dbCreateDocument :: QueryResult
  dbUpdateDocument :: QueryResult
  dbGetDocuments :: "Document list option"
  dbCreateCustomer :: QueryResult
  dbUpdateCustomer :: QueryResult
  dbGetCustomers :: "Customer list option"
  dbCreateBuilder :: QueryResult
  dbUpdateBuilder :: QueryResult
  dbGetBuilders :: "Builder list option"

text \<open>
  \<open>Remote\<close> holds what the remote store answers during one operation: the
  \<open>QueryResult\<close> of each \<open>databaseService\<close> write, and for each reload the list that
  \<open>load...FromDatabase\<close> installs (\<open>None\<close> when the reload fails or carries no data, which
  leaves the list as it was).
\<close>

section \<open>Customers (useCustomers)\<close>

definition generateCustomerId :: "Customer list \<Rightarrow> string" where
  "generateCustomerId customers =
     (let count = length customers + 1
      in ''CUST'' @ padStart 3 (CHR ''0'') (toString_nat count))"

definition getCustomer :: "string \<Rightarrow> Customer list \<Rightarrow> Customer option" where
  "getCustomer ident customers = find_first (\<lambda>customer. c_id customer = ident) customers"

definition getCustomerByPhone :: "string \<Rightarrow> Customer list \<Rightarrow> Customer option" where
  "getCustomerByPhone phone customers = find_first (\<lambda>customer. c_phone customer = phone) customers"

definition loadCustomersFromDatabase :: "bool \<Rightarrow> Remote \<Rightarrow> Customer list \<Rightarrow> Customer list" where
  "loadCustomersFromDatabase isConnected db customers =
     (if \<not> isConnected then customers
      else (case dbGetCustomers db of None \<Rightarrow> customers | Some dbCustomers \<Rightarrow> dbCustomers))"

definition createCustomer ::
  "bool \<Rightarrow> Remote \<Rightarrow> JsDate \<Rightarrow> PartialCustomer \<Rightarrow> Customer list
     \<Rightarrow> (thrown + Customer option) \<times> Customer list" where
  "createCustomer isConnected db now data' customers =
     (if isConnected then
        (let result = dbCreateCustomer db in
         if success result then
           (Inr (last_elem customers), loadCustomersFromDatabase isConnected db customers)
         else (Inl (Error (or_str (error result) ''Failed to create customer'')), customers))
      else
        (let newCustomer = spread_Customer
               \<lparr>c_id = or_str (pc_id data') (generateCustomerId customers),
                c_name = or_str (pc_name data') '''',
                c_phone = or_str (pc_phone data') '''',
                c_email = pc_email data',
                c_address = or_str (pc_address data') '''',
                c_documents = or_field (pc_documents data') [],
                c_createdAt = now\<rparr> data'
         in (Inr (Some newCustomer), customers @ [newCustomer])))"

definition updateCustomer ::
  "bool \<Rightarrow> Remote \<Rightarrow> string \<Rightarrow> PartialCustomer \<Rightarrow> Customer list
     \<Rightarrow> (thrown + Customer option) \<times> Customer list" where
  "updateCustomer isConnected db ident data' customers =
     (if isConnected then
        (let result = dbUpdateCustomer db in
         if success result then
           (Inr (find_first (\<lambda>c. c_id c = ident) customers),
            loadCustomersFromDatabase isConnected db customers)
         else (Inl (Error (or_str (error result) ''Failed to update customer'')), customers))
      else
        (Inr (find_first (\<lambda>c. c_id c = ident) customers),
         map (\<lambda>customer. if c_id customer = ident then spread_Customer customer data'
                           else customer) customers))"

definition addDocumentToCustomer ::
  "bool \<Rightarrow> Remote \<Rightarrow> string \<Rightarrow> string \<Rightarrow> Customer list \<Rightarrow> (thrown + unit) \<times> Customer list" where
  "addDocumentToCustomer isConnected db customerId documentId customers =
     (case getCustomer customerId customers of
        None \<Rightarrow> (Inr (), customers)
      | Some customer \<Rightarrow>
          if documentId \<notin> set (c_documents customer) then
            (case updateCustomer isConnected db customerId
                    (no_customer_fields\<lparr>pc_documents := Some (c_documents customer @ [documentId])\<rparr>)
                    customers of
               (Inl e, customers') \<Rightarrow> (Inl e, customers')
             | (Inr _, customers') \<Rightarrow> (Inr (), customers'))
          else (Inr (), customers))"

section \<open>Builders (src/hooks/useBuilders.tsx)\<close>

definition generateBuilderId :: "Builder list \<Rightarrow> string" where
  "generateBuilderId builders =
     (let count = length builders + 1
      in ''BLD'' @ padStart 3 (CHR ''0'') (toString_nat count))"

definition getBuilder :: "string \<Rightarrow> Builder list \<Rightarrow> Builder option" where
  "getBuilder ident builders = find_first (\<lambda>builder. b_id builder = ident) builders"

definition getBuilderByName :: "string \<Rightarrow> Builder list \<Rightarrow> Builder option" where
  "getBuilderByName name builders =
     find_first (\<lambda>builder. includes_str (toLowerCase (b_name builder)) (toLowerCase name)) builders"

definition loadBuildersFromDatabase :: "bool \<Rightarrow> Remote \<Rightarrow> Builder list \<Rightarrow> Builder list" where
  "loadBuildersFromDatabase isConnected db builders =
     (if \<not> isConnected then builders
      else (case dbGetBuilders db of None \<Rightarrow> builders | Some dbBuilders \<Rightarrow> dbBuilders))"

definition createBuilder ::
  "bool \<Rightarrow> Remote \<Rightarrow> JsDate \<Rightarrow> PartialBuilder \<Rightarrow> Builder list
     \<Rightarrow> (thrown + Builder option) \<times> Builder list" where
  "createBuilder isConnected db now data' builders =
     (if isConnected then
        (let result = dbCreateBuilder db in
         if success result then
           (Inr (last_elem builders), loadBuildersFromDatabase isConnected db builders)
         else (Inl (Error (or_str (error result) ''Failed to create builder'')), builders))
      else
        (let newBuilder = spread_Builder
               \<lparr>b_id = or_str (pb_id data') (generateBuilderId builders),
                b_name = or_str (pb_name data') '''',
                contactPerson = or_str (pb_contactPerson data') '''',
                b_phone = or_str (pb_phone data') '''',
                b_email = pb_email data',
                b_address = or_str (pb_address data') '''',
                registrationNumber = pb_registrationNumber data',
                b_documents = or_field (pb_documents data') [],
                b_createdAt = now\<rparr> data'
         in (Inr (Some newBuilder), builders @ [newBuilder])))"

definition updateBuilder ::
  "bool \<Rightarrow> Remote \<Rightarrow> string \<Rightarrow> PartialBuilder \<Rightarrow> Builder list
     \<Rightarrow> (thrown + Builder option) \<times> Builder list" where
  "updateBuilder isConnected db ident data' builders =
     (if isConnected then
        (let result = dbUpdateBuilder db in
         if success result then
           (Inr (find_first (\<lambda>b. b_id b = ident) builders),
            loadBuildersFromDatabase isConnected db builders)
         else (Inl (Error (or_str (error result) ''Failed to update builder'')), builders))
      else
        (Inr (find_first (\<lambda>b. b_id b = ident) builders),
         map (\<lambda>builder. if b_id builder = ident then spread_Builder builder data'
                          else builder) builders))"

definition addDocumentToBuilder ::
  "bool \<Rightarrow> Remote \<Rightarrow> string \<Rightarrow> string \<Rightarrow> Builder list \<Rightarrow> (thrown + unit) \<times> Builder list" where
  "addDocumentToBuilder isConnected db builderId documentId builders =
     (case getBuilder builderId builders of
        None \<Rightarrow> (Inr (), builders)
      | Some builder \<Rightarrow>
          if documentId \<notin> set (b_documents builder) then
            (case updateBuilder isConnected db builderId
                    (no_builder_fields\<lparr>pb_documents := Some (b_documents builder @ [documentId])\<rparr>)
                    builders of
               (Inl e, builders') \<Rightarrow> (Inl e, builders')
             | (Inr _, builders') \<Rightarrow> (Inr (), builders'))
          else (Inr (), builders))"

section \<open>Documents (src/hooks/useDocuments.tsx)\<close>

record AppState =
  isConnected :: bool
  documents :: "Document list"
  customers :: "Customer list"
  builders :: "Builder list"

definition truthy_opt :: "string option \<Rightarrow> bool" where
  "truthy_opt a = (case a of None \<Rightarrow> False | Some s \<Rightarrow> s \<noteq> [])"

definition loadDocumentsFromDatabase :: "Remote \<Rightarrow> AppState \<Rightarrow> AppState" where
  "loadDocumentsFromDatabase db s =
     (if \<not> isConnected s then s
      else (case dbGetDocuments db of None \<Rightarrow> s | Some dbDocuments \<Rightarrow> s\<lparr>documents := dbDocuments\<rparr>))"

definition generateDocumentNumber :: "JsDate \<Rightarrow> string \<Rightarrow> Document list \<Rightarrow> string" where
  "generateDocumentNumber now type' docs =
     (let prefix = remove_first (CHR ''_'') (toUpperCase type');
          year = getFullYear now;
          count = length (filter (\<lambda>d. documentType d = Some type') docs) + 1
      in prefix @ ''/'' @ toString_nat year @ ''/'' @ padStart 3 (CHR ''0'') (toString_nat count))"

text \<open>
  \<open>data.documentNumber || generateDocumentNumber(data.documentType!)\<close>: the generator runs
  only when no number was given, and reading \<open>toUpperCase\<close> of a missing type throws.
\<close>

definition numberOrGenerate :: "JsDate \<Rightarrow> PartialDocument \<Rightarrow> Document list \<Rightarrow> thrown + string" where
  "numberOrGenerate now data' docs =
     (if truthy_opt (pd_documentNumber data') then Inr (or_str (pd_documentNumber data') '''')
      else (case pd_documentType data' of
              None \<Rightarrow> Inl (Error ''Cannot read properties of undefined'')
            | Some type' \<Rightarrow> Inr (generateDocumentNumber now type' docs)))"

text \<open>The connected path: ``auto-create customer if not exists'', and the same for the builder.\<close>

definition autoCreateCustomer ::
  "Remote \<Rightarrow> JsDate \<Rightarrow> PartialDocument \<Rightarrow> AppState \<Rightarrow> (thrown + unit) \<times> AppState" where
  "autoCreateCustomer db now data' s =
     (if truthy_opt (pd_customerName data') \<and> truthy_opt (pd_customerPhone data') then
        (case getCustomerByPhone (or_str (pd_customerPhone data') '''') (customers s) of
           Some customer \<Rightarrow> (Inr (), s)
         | None \<Rightarrow>
             (case createCustomer (isConnected s) db now
                     (no_customer_fields\<lparr>pc_name := pd_customerName data',
                        pc_phone := pd_customerPhone data',
                        pc_email := pd_customerEmail data',
                        pc_address := Some (or_str (pd_propertyDetails data') '''')\<rparr>)
                     (customers s) of
                (Inl e, cs) \<Rightarrow> (Inl e, s\<lparr>customers := cs\<rparr>)
              | (Inr _, cs) \<Rightarrow> (Inr (), s\<lparr>customers := cs\<rparr>)))
      else (Inr (), s))"

definition autoCreateBuilder ::
  "Remote \<Rightarrow> JsDate \<Rightarrow> PartialDocument \<Rightarrow> AppState \<Rightarrow> (thrown + unit) \<times> AppState" where
  "autoCreateBuilder db now data' s =
     (if truthy_opt (pd_builderName data') then
        (case getBuilderByName (or_str (pd_builderName data') '''') (builders s) of
           Some builder \<Rightarrow> (Inr (), s)
         | None \<Rightarrow>
             (case createBuilder (isConnected s) db now
                     (no_builder_fields\<lparr>pb_name := pd_builderName data',
                        pb_contactPerson := Some ''Contact Person'',
                        pb_phone := Some ''+91 0000000000'',
                        pb_address := Some ''Address not provided''\<rparr>)
                     (builders s) of
                (Inl e, bs) \<Rightarrow> (Inl e, s\<lparr>builders := bs\<rparr>)
              | (Inr _, bs) \<Rightarrow> (Inr (), s\<lparr>builders := bs\<rparr>)))
      else (Inr (), s))"

text \<open>The local path: ``auto-create or update customer'', and the same for the builder.\<close>

definition linkCustomer ::
  "Remote \<Rightarrow> JsDate \<Rightarrow> Document \<Rightarrow> AppState \<Rightarrow> (thrown + unit) \<times> AppState" where
  "linkCustomer db now newDocument s =
     (if truthy_str (customerName newDocument) \<and> truthy_str (customerPhone newDocument) then
        (case getCustomerByPhone (customerPhone newDocument) (customers s) of
           None \<Rightarrow>
             (case createCustomer (isConnected s) db now
                     (no_customer_fields\<lparr>pc_name := Some (customerName newDocument),
                        pc_phone := Some (customerPhone newDocument),
                        pc_email := customerEmail newDocument,
                        pc_address := Some (propertyDetails newDocument),
                        pc_documents := Some [d_id newDocument]\<rparr>)
                     (customers s) of
                (Inl e, cs) \<Rightarrow> (Inl e, s\<lparr>customers := cs\<rparr>)
              | (Inr _, cs) \<Rightarrow> (Inr (), s\<lparr>customers := cs\<rparr>))
         | Some customer \<Rightarrow>
             (case addDocumentToCustomer (isConnected s) db (c_id customer) (d_id newDocument)
                     (customers s) of
                (r, cs) \<Rightarrow> (r, s\<lparr>customers := cs\<rparr>)))
      else (Inr (), s))"

definition linkBuilder ::
  "Remote \<Rightarrow> JsDate \<Rightarrow> Document \<Rightarrow> AppState \<Rightarrow> (thrown + unit) \<times> AppState" where
  "linkBuilder db now newDocument s =
     (if truthy_str (builderName newDocument) then
        (case getBuilderByName (builderName newDocument) (builders s) of
           None \<Rightarrow>
             (case createBuilder (isConnected s) db now
                     (no_builder_fields\<lparr>pb_name := Some (builderName newDocument),
                        pb_contactPerson := Some ''Contact Person'',
                        pb_phone := Some ''+91 0000000000'',
                        pb_address := Some ''Address not provided'',
                        pb_documents := Some [d_id newDocument]\<rparr>)
                     (builders s) of
                (Inl e, bs) \<Rightarrow> (Inl e, s\<lparr>builders := bs\<rparr>)
              | (Inr _, bs) \<Rightarrow> (Inr (), s\<lparr>builders := bs\<rparr>))
         | Some builder \<Rightarrow>
             (case addDocumentToBuilder (isConnected s) db (b_id builder) (d_id newDocument)
                     (builders s) of
                (r, bs) \<Rightarrow> (r, s\<lparr>builders := bs\<rparr>)))
      else (Inr (), s))"

text \<open>The object literal of the local path: the defaults, then \<open>...data\<close> spread over them.\<close>

definition newLocalDocument :: "JsDate \<Rightarrow> string \<Rightarrow> PartialDocument \<Rightarrow> Document" where
  "newLocalDocument now number data' =
     spread_Document
       \<lparr>d_id = ''DOC'' @ toString_int (getTime now),
        documentNumber = number,
        customerName = or_str (pd_customerName data') '''',
        customerPhone = or_str (pd_customerPhone data') '''',
        customerEmail = pd_customerEmail data',
        builderName = or_str (pd_builderName data') '''',
        propertyDetails = or_str (pd_propertyDetails data') '''',
        documentType = pd_documentType data',
        d_status = pending_collection,
        collectionDate = None,
        dataEntryDate = None,
        registrationDate = None,
        deliveryDate = None,
        assignedTo = pd_assignedTo data',
        d_notes = [],
        files = [],
        d_createdAt = now,
        d_updatedAt = now\<rparr> data'"

definition createDocument ::
  "Remote \<Rightarrow> JsDate \<Rightarrow> PartialDocument \<Rightarrow> AppState \<Rightarrow> (thrown + Document option) \<times> AppState" where
  "createDocument db now data' s =
     (case numberOrGenerate now data' (documents s) of
        Inl e \<Rightarrow> (Inl e, s)
      | Inr number \<Rightarrow>
          if isConnected s then
            (let result = dbCreateDocument db in
             if success result then
               (case autoCreateCustomer db now data' s of
                  (Inl e, s1) \<Rightarrow> (Inl e, s1)
                | (Inr _, s1) \<Rightarrow>
                    (case autoCreateBuilder db now data' s1 of
                       (Inl e, s2) \<Rightarrow> (Inl e, s2)
                     | (Inr _, s2) \<Rightarrow>
                         (Inr (last_elem (documents s)), loadDocumentsFromDatabase db s2)))
             else (Inl (Error (or_str (error result) ''Failed to create document'')), s))
          else
            (let newDocument = newLocalDocument now number data'
             in (case linkCustomer db now newDocument s of
                   (Inl e, s1) \<Rightarrow> (Inl e, s1)
                 | (Inr _, s1) \<Rightarrow>
                     (case linkBuilder db now newDocument s1 of
                        (Inl e, s2) \<Rightarrow> (Inl e, s2)
                      | (Inr _, s2) \<Rightarrow>
                          (Inr (Some newDocument),
                           s2\<lparr>documents := documents s2 @ [newDocument]\<rparr>)))))"

definition updateDocument ::
  "Remote \<Rightarrow> JsDate \<Rightarrow> string \<Rightarrow> PartialDocument \<Rightarrow> AppState
     \<Rightarrow> (thrown + Document option) \<times> AppState" where
  "updateDocument db now ident data' s =
     (if isConnected s then
        (let result = dbUpdateDocument db in
         if success result then
           (Inr (find_first (\<lambda>d. d_id d = ident) (documents s)), loadDocumentsFromDatabase db s)
         else (Inl (Error (or_str (error result) ''Failed to update document'')), s))
      else
        (let updatedDocument = data'\<lparr>pd_updatedAt := Some now\<rparr>
         in (Inr (find_first (\<lambda>d. d_id d = ident) (documents s)),
             s\<lparr>documents := map (\<lambda>doc. if d_id doc = ident then spread_Document doc updatedDocument
                                        else doc) (documents s)\<rparr>)))"

definition getDocument :: "string \<Rightarrow> AppState \<Rightarrow> Document option" where
  "getDocument ident s = find_first (\<lambda>doc. d_id doc = ident) (documents s)"

definition updateStatus ::
  "Remote \<Rightarrow> JsDate \<Rightarrow> string \<Rightarrow> DocumentStatus \<Rightarrow> AppState \<Rightarrow> (thrown + unit) \<times> AppState" where
  "updateStatus db now ident status s =
     (case updateDocument db now ident (no_document_fields\<lparr>pd_status := Some status\<rparr>) s of
        (Inl e, s') \<Rightarrow> (Inl e, s')
      | (Inr _, s') \<Rightarrow> (Inr (), s'))"

section \<open>Attendance (useAttendance)\<close>

text \<open>
  Modelled from the spec: the attendance types of \<open>src/types/attendance\<close> are not among
  the sources. The fields are those the store reads and writes; the statuses are those of
  the schema in Settings.tsx.
\<close>

datatype AttendanceStatus =
  present | absent | late | half_day | on_leave | holiday | work_from_home

record AttendanceRecord =
  a_id :: string
  a_userId :: string
  a_userName :: string
  a_userRole :: string
  a_date :: JsDate
  clockInTime :: "JsDate option"
  clockOutTime :: "JsDate option"
  a_status :: AttendanceStatus
  totalHours :: "js_number option"
  overtime :: "js_number option"
  breakTime :: "js_number option"
  location :: "string option"
  a_notes :: "string option"
  a_createdAt :: JsDate
  a_updatedAt :: JsDate

record AttendanceSettings =
  workingHoursPerDay :: js_number
  workingDaysPerWeek :: nat
  lateThresholdMinutes :: nat
  halfDayThresholdHours :: js_number
  overtimeThresholdHours :: js_number
  allowEarlyClockIn :: bool
  allowLateClockOut :: bool
  requireLocationTracking :: bool
  autoClockOutTime :: string

definition defaultAttendanceSettings :: AttendanceSettings where
  "defaultAttendanceSettings =
     \<lparr>workingHoursPerDay = Num 8, workingDaysPerWeek = 6, lateThresholdMinutes = 15,
      halfDayThresholdHours = Num 4, overtimeThresholdHours = Num 8, allowEarlyClockIn = True,
      allowLateClockOut = True, requireLocationTracking = False,
      autoClockOutTime = ''20:00''\<rparr>"

definition generateAttendanceId :: "AttendanceRecord list \<Rightarrow> string" where
  "generateAttendanceId attendanceRecords =
     (let count = length attendanceRecords + 1
      in ''ATT'' @ padStart 3 (CHR ''0'') (toString_nat count))"

text \<open>
  \<open>svcClockIn\<close> and \<open>svcClockOut\<close> are the outcomes of the calls
  \<open>databaseService.clockIn(...)\<close> and \<open>databaseService.clockOut(...)\<close> of the connected path:
  a throw or a \<open>QueryResult\<close>. (The class of databaseService.ts defines neither method, so
  on that object the call throws a \<open>TypeError\<close>.)
\<close>

definition clockIn ::
  "User option \<Rightarrow> bool \<Rightarrow> (thrown + QueryResult) \<Rightarrow> AttendanceSettings \<Rightarrow> JsDate
     \<Rightarrow> string option \<Rightarrow> string option \<Rightarrow> AttendanceRecord list
     \<Rightarrow> (thrown + AttendanceRecord) \<times> AttendanceRecord list" where
  "clockIn user isConnected' svcClockIn attendanceSettings now location' notes attendanceRecords =
     (case user of
        None \<Rightarrow> (Inl (Error ''User not authenticated''), attendanceRecords)
      | Some u \<Rightarrow>
          if isConnected' then
            (case svcClockIn of
               Inl e \<Rightarrow> (Inl e, attendanceRecords)
             | Inr result \<Rightarrow>
                 if success result then
                   (let today = startOfDay now;
                        newRecord =
                          \<lparr>a_id = generateAttendanceId attendanceRecords, a_userId = u_id u,
                           a_userName = u_name u, a_userRole = u_role u, a_date = today,
                           clockInTime = Some now, clockOutTime = None, a_status = present,
                           totalHours = None, overtime = None, breakTime = None,
                           location = location', a_notes = notes, a_createdAt = now,
                           a_updatedAt = now\<rparr>
                    in (Inr newRecord, attendanceRecords @ [newRecord]))
                 else (Inl (Error (or_str (error result) ''Failed to clock in'')), attendanceRecords))
          else
            (let today = startOfDay now;
                 existingRecord = find_first
                   (\<lambda>record. a_userId record = u_id u
                      \<and> toDateString (a_date record) = toDateString today) attendanceRecords
             in if (case existingRecord of None \<Rightarrow> False | Some r \<Rightarrow> clockInTime r \<noteq> None) then
                  (Inl (Error ''Already clocked in today''), attendanceRecords)
                else
                  (let expectedStartTime = setHours 9 today;
                       isLate = (getTime now >
                                   getTime expectedStartTime
                                     + int (lateThresholdMinutes attendanceSettings * 60000));
                       newRecord =
                         \<lparr>a_id = generateAttendanceId attendanceRecords, a_userId = u_id u,
                          a_userName = u_name u, a_userRole = u_role u, a_date = today,
                          clockInTime = Some now, clockOutTime = None,
                          a_status = (if isLate then late else present),
                          totalHours = None, overtime = None, breakTime = None,
                          location = location', a_notes = notes, a_createdAt = now,
                          a_updatedAt = now\<rparr>
                   in (Inr newRecord, attendanceRecords @ [newRecord]))))"

text \<open>
  The source writes the body of \<open>clockOut\<close> out once in each path, the same text twice:
  \<open>activeRecordToday\<close> is its lookup, \<open>closeRecord\<close> its elapsed-time arithmetic and
  \<open>finishToday\<close> the two with the update of the list.
\<close>

definition closeRecord ::
  "AttendanceSettings \<Rightarrow> JsDate \<Rightarrow> string option \<Rightarrow> AttendanceRecord \<Rightarrow> thrown + AttendanceRecord" where
  "closeRecord attendanceSettings now notes existingRecord =
     (case clockInTime existingRecord of
        None \<Rightarrow> Inl (Error ''Cannot read properties of undefined'')
      | Some t0 \<Rightarrow>
          (let totalMinutes =
                 fdiv (fsub (number_of_int (getTime now)) (number_of_int (getTime t0)))
                   (fmul (Num 1000) (Num 60));
               totalHours' =
                 fdiv (Math_round (fmul (fdiv totalMinutes (Num 60)) (Num 100))) (Num 100);
               breakTime' = (case breakTime existingRecord of
                               None \<Rightarrow> Num 60
                             | Some b \<Rightarrow> if b = Num 0 \<or> b = NaN then Num 60 else b);
               workingHours = fsub totalHours' (fdiv breakTime' (Num 60));
               overtime' =
                 Math_max (Num 0) (fsub workingHours (workingHoursPerDay attendanceSettings))
           in Inr (existingRecord
                     \<lparr>clockOutTime := Some now,
                      totalHours := Some workingHours,
                      overtime := Some overtime',
                      a_notes := (if truthy_opt notes then notes else a_notes existingRecord),
                      a_updatedAt := now\<rparr>)))"

definition activeRecordToday :: "User \<Rightarrow> JsDate \<Rightarrow> AttendanceRecord list \<Rightarrow> AttendanceRecord option" where
  "activeRecordToday u now attendanceRecords =
     (let today = startOfDay now
      in find_first
           (\<lambda>record. a_userId record = u_id u
              \<and> toDateString (a_date record) = toDateString today
              \<and> clockInTime record \<noteq> None \<and> clockOutTime record = None) attendanceRecords)"

definition finishToday ::
  "User \<Rightarrow> AttendanceSettings \<Rightarrow> JsDate \<Rightarrow> string option \<Rightarrow> AttendanceRecord list
     \<Rightarrow> (thrown + AttendanceRecord) \<times> AttendanceRecord list" where
  "finishToday u attendanceSettings now notes attendanceRecords =
     (case activeRecordToday u now attendanceRecords of
        None \<Rightarrow> (Inl (Error ''No active clock-in found for today''), attendanceRecords)
      | Some existingRecord \<Rightarrow>
          (case closeRecord attendanceSettings now notes existingRecord of
             Inl e \<Rightarrow> (Inl e, attendanceRecords)
           | Inr updatedRecord \<Rightarrow>
               (Inr updatedRecord,
                map (\<lambda>record. if a_id record = a_id existingRecord then updatedRecord
                               else record) attendanceRecords)))"

definition clockOut ::
  "User option \<Rightarrow> bool \<Rightarrow> (thrown + QueryResult) \<Rightarrow> AttendanceSettings \<Rightarrow> JsDate
     \<Rightarrow> string option \<Rightarrow> AttendanceRecord list
     \<Rightarrow> (thrown + AttendanceRecord) \<times> AttendanceRecord list" where
  "clockOut user isConnected' svcClockOut attendanceSettings now notes attendanceRecords =
     (case user of
        None \<Rightarrow> (Inl (Error ''User not authenticated''), attendanceRecords)
      | Some u \<Rightarrow>
          if isConnected' then
            (case svcClockOut of
               Inl e \<Rightarrow> (Inl e, attendanceRecords)
             | Inr result \<Rightarrow>
                 if success result then
                   finishToday u attendanceSettings now notes attendanceRecords
                 else (Inl (Error (or_str (error result) ''Failed to clock out'')),
                       attendanceRecords))
          else finishToday u attendanceSettings now notes attendanceRecords)"

definition markAttendance ::
  "string \<Rightarrow> JsDate \<Rightarrow> AttendanceStatus \<Rightarrow> string option \<Rightarrow> JsDate \<Rightarrow> AttendanceRecord list
     \<Rightarrow> AttendanceRecord \<times> AttendanceRecord list" where
  "markAttendance userId date status notes now attendanceRecords =
     (let targetDate = startOfDay date;
          existingRecord = find_first
            (\<lambda>record. a_userId record = userId
               \<and> toDateString (a_date record) = toDateString targetDate) attendanceRecords
      in case existingRecord of
           Some existing \<Rightarrow>
             (let updatedRecord = existing\<lparr>a_status := status, a_notes := notes, a_updatedAt := now\<rparr>
              in (updatedRecord,
                  map (\<lambda>record. if a_id record = a_id existing then updatedRecord else record)
                    attendanceRecords))
         | None \<Rightarrow>
             (let newRecord =
                    \<lparr>a_id = generateAttendanceId attendanceRecords, a_userId = userId,
                     a_userName = ''User Name'', a_userRole = ''staff'', a_date = targetDate,
                     clockInTime = None, clockOutTime = None, a_status = status,
                     totalHours = None, overtime = None, breakTime = None, location = None,
                     a_notes = notes, a_createdAt = now, a_updatedAt = now\<rparr>
              in (newRecord, attendanceRecords @ [newRecord])))"

text \<open>The invariant of the attendance list: at most one record for a user on a calendar day.\<close>

definition uniquePerUserDay :: "AttendanceRecord list \<Rightarrow> bool" where
  "uniquePerUserDay attendanceRecords =
     distinct (map (\<lambda>record. (a_userId record, toDateString (a_date record))) attendanceRecords)"

section \<open>Concrete inputs\<close>

text \<open>The values at which the theorems below are instantiated and the code is evaluated.\<close>

definition date_of :: "int \<Rightarrow> nat \<Rightarrow> nat \<Rightarrow> nat \<Rightarrow> nat \<Rightarrow> JsDate" where
  "date_of t y m d ms = \<lparr>getTime = t, getFullYear = y, getMonth = m, getDate = d, msOfDay = ms\<rparr>"

text \<open>Two of the mock users of useAuth (the administrator's permission list shortened).\<close>

definition mockAdmin :: User where
  "mockAdmin =
     \<lparr>u_id = ''1'', u_email = ''admin@omservices.com'', u_name = ''Main Admin'',
      u_role = ''main_admin'',
      permissions =
        [\<lparr>pm_id = ''1'', pm_module = ''documents'', pm_action = ''create'', granted = True\<rparr>,
         \<lparr>pm_id = ''11'', pm_module = ''salary'', pm_action = ''read'', granted = True\<rparr>],
      u_isActive = True, u_createdAt = date_of 1704067200000 2024 0 1 0, lastLogin = None\<rparr>"

definition mockChallanStaff :: User where
  "mockChallanStaff =
     \<lparr>u_id = ''2'', u_email = ''challan@omservices.com'', u_name = ''Challan Staff'',
      u_role = ''challan_staff'',
      permissions =
        [\<lparr>pm_id = ''11'', pm_module = ''documents'', pm_action = ''read'', granted = True\<rparr>,
         \<lparr>pm_id = ''12'', pm_module = ''challans'', pm_action = ''create'', granted = True\<rparr>,
         \<lparr>pm_id = ''13'', pm_module = ''challans'', pm_action = ''update'', granted = True\<rparr>,
         \<lparr>pm_id = ''14'', pm_module = ''payments'', pm_action = ''read'', granted = True\<rparr>],
      u_isActive = True, u_createdAt = date_of 1705276800000 2024 0 15 0, lastLogin = None\<rparr>"

text \<open>15 June 2024, 10:00 local time, and an agreement created one year earlier.\<close>

definition now_2024 :: JsDate where
  "now_2024 = date_of 1718445600000 2024 5 15 36000000"

definition agreement_2023 :: Document where
  "agreement_2023 =
     \<lparr>d_id = ''DOC1686823200000'', documentNumber = ''AGREEMENT/2023/001'',
      customerName = ''A'', customerPhone = ''123'', customerEmail = None, builderName = ''B'',
      propertyDetails = '''', documentType = Some ''agreement'', d_status = delivered,
      collectionDate = None, dataEntryDate = None, registrationDate = None,
      deliveryDate = None, assignedTo = None, d_notes = [], files = [],
      d_createdAt = date_of 1686823200000 2023 5 15 36000000,
      d_updatedAt = date_of 1686823200000 2023 5 15 36000000\<rparr>"

text \<open>
  The words of the specification for the document number, to compare the code with: the
  prefix derived from the type, and the count of the documents of that type created in
  the current year.
\<close>

definition typePrefix :: "string \<Rightarrow> string" where
  "typePrefix type' = remove_first (CHR ''_'') (toUpperCase type')"

definition spec_countThisYear :: "JsDate \<Rightarrow> string \<Rightarrow> Document list \<Rightarrow> nat" where
  "spec_countThisYear now type' docs =
     length (filter (\<lambda>d. documentType d = Some type'
                          \<and> getFullYear (d_createdAt d) = getFullYear now) docs)"

text \<open>The end-to-end scenario: the empty stores in local mode and the four fields given.\<close>

definition scenario_data :: PartialDocument where
  "scenario_data =
     no_document_fields\<lparr>pd_customerName := Some ''A'', pd_customerPhone := Some ''123'',
       pd_builderName := Some ''B'', pd_documentType := Some ''agreement''\<rparr>"

definition empty_local :: AppState where
  "empty_local = \<lparr>isConnected = False, documents = [], customers = [], builders = []\<rparr>"

text \<open>The gateway: a configuration, the request \<open>query\<close> sends, and two responses.\<close>

definition example_config :: DatabaseConfig where
  "example_config =
     \<lparr>host = ''localhost'', port = 3306, database = ''om_services'', username = ''root'',
      password = ''secret'', ssl = ''false''\<rparr>"

definition connected_service :: DatabaseService where
  "connected_service = \<lparr>db_config = Some example_config, db_isConnected = True\<rparr>"

definition disconnected_service :: DatabaseService where
  "disconnected_service = \<lparr>db_config = Some example_config, db_isConnected = False\<rparr>"

definition queryRequest :: "DatabaseConfig \<Rightarrow> string \<Rightarrow> param list \<Rightarrow> Request" where
  "queryRequest cfg sql params =
     \<lparr>url = ''/api/db-query.php'', http_method = ''POST'', body_config = cfg,
      body_sql = sql, body_params = params\<rparr>"

definition response_500 :: Response where
  "response_500 = \<lparr>ok = False, json = Inl (Error ''Unexpected token''),
                    text_body = Inr ''Internal Server Error''\<rparr>"

definition response_sql_error :: Response where
  "response_sql_error =
     \<lparr>ok = True, json = Inr (failure ''Table does not exist''),
      text_body = Inr ''{}''\<rparr>"

text \<open>A remote store that fails every call, and a store holding the agreement of 2023.\<close>

definition remote_down :: Remote where
  "remote_down =
     \<lparr>dbCreateDocument = failure ''Query failed: Bad Gateway'',
      dbUpdateDocument = failure ''Query failed: Bad Gateway'',
      dbGetDocuments = None,
      dbCreateCustomer = failure ''Query failed: Bad Gateway'',
      dbUpdateCustomer = failure ''Query failed: Bad Gateway'',
      dbGetCustomers = None,
      dbCreateBuilder = failure ''Query failed: Bad Gateway'',
      dbUpdateBuilder = failure ''Query failed: Bad Gateway'',
      dbGetBuilders = None\<rparr>"

definition local_with_agreement :: AppState where
  "local_with_agreement =
     \<lparr>isConnected = False, documents = [agreement_2023], customers = [], builders = []\<rparr>"

definition connected_with_agreement :: AppState where
  "connected_with_agreement =
     \<lparr>isConnected = True, documents = [agreement_2023], customers = [], builders = []\<rparr>"

text \<open>A customer and a builder that already list the agreement of 2023.\<close>

definition customer_A :: Customer where
  "customer_A =
     \<lparr>c_id = ''CUST001'', c_name = ''A'', c_phone = ''123'', c_email = None, c_address = '''',
      c_documents = [''DOC1686823200000''], c_createdAt = date_of 1686823200000 2023 5 15 36000000\<rparr>"

definition builder_B :: Builder where
  "builder_B =
     \<lparr>b_id = ''BLD001'', b_name = ''B'', contactPerson = ''Contact Person'',
      b_phone = ''+91 0000000000'', b_email = None, b_address = ''Address not provided'',
      registrationNumber = None, b_documents = [''DOC1686823200000''],
      b_createdAt = date_of 1686823200000 2023 5 15 36000000\<rparr>"

text \<open>
  The evening of the same day, 19:10, and the record of the staff member who clocked in at
  10:00, without a break time and with a break of 30 minutes.
\<close>

definition now_evening :: JsDate where
  "now_evening = date_of 1718478600000 2024 5 15 69000000"

definition open_record :: AttendanceRecord where
  "open_record =
     \<lparr>a_id = ''ATT001'', a_userId = ''2'', a_userName = ''Challan Staff'',
      a_userRole = ''challan_staff'', a_date = date_of 1718409600000 2024 5 15 0,
      clockInTime = Some now_2024, clockOutTime = None, a_status = late, totalHours = None,
      overtime = None, breakTime = None, location = None, a_notes = None,
      a_createdAt = now_2024, a_updatedAt = now_2024\<rparr>"

definition open_record_30 :: AttendanceRecord where
  "open_record_30 = open_record\<lparr>breakTime := Some (Num 30)\<rparr>"

text \<open>
  The scenario created twice in local mode, in the morning and in the evening: the two
  documents and the stores after each creation. Then the rows and the answers of a remote
  store for the same two creations in connected mode.
\<close>

definition first_doc :: Document where
  "first_doc = newLocalDocument now_2024 ''AGREEMENT/2024/001'' scenario_data"

definition second_doc :: Document where
  "second_doc = newLocalDocument now_evening ''AGREEMENT/2024/002'' scenario_data"

definition first_customer :: Customer where
  "first_customer =
     \<lparr>c_id = ''CUST001'', c_name = ''A'', c_phone = ''123'', c_email = None, c_address = '''',
      c_documents = [''DOC1718445600000''], c_createdAt = now_2024\<rparr>"

definition first_builder :: Builder where
  "first_builder =
     \<lparr>b_id = ''BLD001'', b_name = ''B'', contactPerson = ''Contact Person'',
      b_phone = ''+91 0000000000'', b_email = None, b_address = ''Address not provided'',
      registrationNumber = None, b_documents = [''DOC1718445600000''],
      b_createdAt = now_2024\<rparr>"

definition after_first :: AppState where
  "after_first =
     \<lparr>isConnected = False, documents = [first_doc], customers = [first_customer],
      builders = [first_builder]\<rparr>"

definition after_second :: AppState where
  "after_second =
     \<lparr>isConnected = False, documents = [first_doc, second_doc],
      customers = [first_customer\<lparr>c_documents := [''DOC1718445600000'', ''DOC1718478600000'']\<rparr>],
      builders = [first_builder\<lparr>b_documents := [''DOC1718445600000'', ''DOC1718478600000'']\<rparr>]\<rparr>"

definition inserted :: QueryResult where
  "inserted = \<lparr>success = True, data = None, error = None, affectedRows = Some 1\<rparr>"

definition doc_row_1 :: Document where
  "doc_row_1 =
     \<lparr>d_id = ''1'', documentNumber = ''AGREEMENT/2024/001'',
      customerName = ''A'', customerPhone = ''123'', customerEmail = None, builderName = ''B'',
      propertyDetails = '''', documentType = Some ''agreement'', d_status = pending_collection,
      collectionDate = None, dataEntryDate = None, registrationDate = None,
      deliveryDate = None, assignedTo = None, d_notes = [], files = [],
      d_createdAt = now_2024, d_updatedAt = now_2024\<rparr>"

definition doc_row_2 :: Document where
  "doc_row_2 =
     doc_row_1\<lparr>d_id := ''2'', documentNumber := ''AGREEMENT/2024/002'',
       d_createdAt := now_evening, d_updatedAt := now_evening\<rparr>"

definition customer_row :: Customer where
  "customer_row =
     \<lparr>c_id = ''1'', c_name = ''A'', c_phone = ''123'', c_email = None, c_address = '''',
      c_documents = [''AGREEMENT/2024/001''], c_createdAt = now_2024\<rparr>"

definition builder_row :: Builder where
  "builder_row =
     \<lparr>b_id = ''1'', b_name = ''B'', contactPerson = ''Contact Person'',
      b_phone = ''+91 0000000000'', b_email = None, b_address = ''Address not provided'',
      registrationNumber = None, b_documents = [''AGREEMENT/2024/001''],
      b_createdAt = now_2024\<rparr>"

definition remote_first :: Remote where
  "remote_first =
     \<lparr>dbCreateDocument = inserted, dbUpdateDocument = inserted,
      dbGetDocuments = Some [doc_row_1],
      dbCreateCustomer = inserted, dbUpdateCustomer = inserted,
      dbGetCustomers = Some [customer_row],
      dbCreateBuilder = inserted, dbUpdateBuilder = inserted,
      dbGetBuilders = Some [builder_row]\<rparr>"

definition remote_second :: Remote where
  "remote_second = remote_first\<lparr>dbGetDocuments := Some [doc_row_2, doc_row_1]\<rparr>"

definition connected_empty :: AppState where
  "connected_empty = \<lparr>isConnected = True, documents = [], customers = [], builders = []\<rparr>"

definition connected_after_first :: AppState where
  "connected_after_first =
     \<lparr>isConnected = True, documents = [doc_row_1], customers = [customer_row],
      builders = [builder_row]\<rparr>"

text \<open>
  A record of user 2 opened at 09:00:00 of the same day, and the instant 18:00:18 of that
  day: 32418 seconds later.
\<close>

definition now_nine :: JsDate where
  "now_nine = date_of 1718442000000 2024 5 15 32400000"

definition now_six :: JsDate where
  "now_six = date_of 1718474418000 2024 5 15 64818000"

definition nine_record :: AttendanceRecord where
  "nine_record = open_record\<lparr>clockInTime := Some now_nine\<rparr>"


text \<open>
  Two salary configurations: one in whole rupees, and one whose only amounts are the
  allowances \<open>0.1\<close> and \<open>0.2\<close> (the doubles nearest to one tenth and to one fifth).
\<close>

definition whole_config :: StaffSalaryConfig where
  "whole_config =
     \<lparr>sc_id = ''CFG001'', sc_userId = ''2'', baseSalary = Num 30000,
      allowances =
        [\<lparr>al_id = ''A1'', al_type = ''house_rent'', al_amount = Num 5000, al_description = None\<rparr>,
         \<lparr>al_id = ''A2'', al_type = ''transport'', al_amount = Num 2000, al_description = None\<rparr>],
      deductions =
        [\<lparr>de_id = ''D1'', de_type = ''tax'', de_amount = Num 1500, de_description = None\<rparr>],
      overtimeRate = Num 200, paymentMethod = ''bank_transfer'', bankDetails = None,
      isActive = True, effectiveFrom = date_of 1704067200000 2024 0 1 0,
      sc_createdAt = date_of 1704067200000 2024 0 1 0,
      sc_updatedAt = date_of 1704067200000 2024 0 1 0\<rparr>"

definition tenths_config :: StaffSalaryConfig where
  "tenths_config =
     \<lparr>sc_id = ''CFG002'', sc_userId = ''2'', baseSalary = Num 0,
      allowances =
        [\<lparr>al_id = ''A1'', al_type = ''food'',
          al_amount = Num (3602879701896397 / 36028797018963968), al_description = None\<rparr>,
         \<lparr>al_id = ''A2'', al_type = ''other'',
          al_amount = Num (3602879701896397 / 18014398509481984), al_description = None\<rparr>],
      deductions = [],
      overtimeRate = Num 0, paymentMethod = ''cash'', bankDetails = None,
      isActive = True, effectiveFrom = date_of 1704067200000 2024 0 1 0,
      sc_createdAt = date_of 1704067200000 2024 0 1 0,
      sc_updatedAt = date_of 1704067200000 2024 0 1 0\<rparr>"

section \<open>Rounding to the nearest double\<close>

text \<open>
  Whole numbers of magnitude up to \<open>2^53\<close> are doubles, so sums, differences and
  products of whole numbers within that range are exact. Other values are evaluated by
  unfolding \<open>fl\<close>.
\<close>

lemma bitlength_bounds:
  "0 < n \<Longrightarrow> 2 ^ (bitlength n - 1) \<le> n \<and> n < 2 ^ bitlength n"
proof (induction n rule: bitlength.induct)
  case (1 n)
  show ?case
  proof (cases "n div 2 = 0")
    case True
    with "1.prems" have "n = 1" by arith
    then show ?thesis by (simp add: bitlength.simps)
  next
    case False
    then have pos: "0 < n div 2" by simp
    from "1.prems" have nz: "n \<noteq> 0" by simp
    from "1.IH" [OF nz pos]
    have lo: "2 ^ (bitlength (n div 2) - 1) \<le> n div 2"
      and hi: "n div 2 < 2 ^ bitlength (n div 2)"
      by simp_all
    from pos have bl: "0 < bitlength (n div 2)"
      by (simp add: bitlength.simps)
    have b: "bitlength n = Suc (bitlength (n div 2))"
      using nz by (simp add: bitlength.simps)
    from bl have s: "bitlength (n div 2) = Suc (bitlength (n div 2) - 1)" by simp
    have "2 ^ (bitlength n - 1) = 2 * 2 ^ (bitlength (n div 2) - 1)"
      unfolding b using s by (metis diff_Suc_1 power_Suc)
    also from lo have "\<dots> \<le> 2 * (n div 2)" by simp
    also have "\<dots> \<le> n" by simp
    finally have 1: "2 ^ (bitlength n - 1) \<le> n" .
    from hi have "n div 2 + 1 \<le> 2 ^ bitlength (n div 2)" by simp
    then have "2 * (n div 2) + 2 \<le> 2 * 2 ^ bitlength (n div 2)" by simp
    moreover have "n < 2 * (n div 2) + 2" by arith
    ultimately have 2: "n < 2 ^ bitlength n" unfolding b by simp
    from 1 2 show ?thesis ..
  qed
qed

lemma round_half_even_int: "round_half_even (of_int k) = k"
  by (simp add: round_half_even_def)

lemma fl_neg: "fl (- x) = fneg (fl x)"
  by (simp add: fl_def Let_def)

lemma pow2_pos: "0 < pow2 k"
  by (simp add: pow2_def)

lemma two_53_below_limit: "(2::real) ^ 53 < pow2 1024"
  by (simp add: pow2_def)

lemma fl_of_nat:
  assumes "n \<le> 2 ^ 53"
  shows "fl (real n) = Num (real n)"
proof (cases "n = 0")
  case True
  then show ?thesis by (simp add: fl_def)
next
  case False
  then have pos: "0 < n" by simp
  define b where "b = bitlength n"
  from bitlength_bounds [OF pos]
  have lo: "2 ^ (b - 1) \<le> n" and hi: "n < 2 ^ b"
    by (simp_all add: b_def)
  from pos have b1: "1 \<le> b"
    by (simp add: b_def bitlength.simps)
  from lo assms have p: "(2::nat) ^ (b - 1) \<le> 2 ^ 53" by (rule order_trans)
  have "(1::nat) < 2" by simp
  from power_le_imp_le_exp [OF this p] have b54: "b - 1 \<le> 53" .
  let ?q = "pow2 (int b - 53)"
  have il: "ilog2 (real n) = int b - 1"
    using pos by (simp add: ilog2_def b_def)
  from b1 have e: "max (ilog2 (real n)) (- 1022) = int b - 1"
    unfolding il by simp
  have ex: "\<exists>k::int. real n / ?q = of_int k"
  proof (cases "b \<le> 53")
    case True
    show ?thesis
    proof (cases "b = 53")
      case True
      then have "real n / ?q = of_int (int n)" by (simp add: pow2_def)
      then show ?thesis ..
    next
      case False
      with \<open>b \<le> 53\<close> have "b < 53" by simp
      then have "real n / ?q = of_int (int n * 2 ^ nat (53 - int b))"
        by (simp add: pow2_def)
      then show ?thesis ..
    qed
  next
    case False
    with b54 have b: "b = 54" by simp
    with lo assms have n: "n = 2 ^ 53" by simp
    have "real n / ?q = of_int (2 ^ 52)"
      unfolding n b by (simp add: pow2_def)
    then show ?thesis ..
  qed
  then obtain k :: int where k: "real n / ?q = of_int k" ..
  from pow2_pos [of "int b - 53"] have qn: "?q \<noteq> 0" by simp
  have "of_int (round_half_even (real n / ?q)) * ?q = of_int k * ?q"
    unfolding k by (simp add: round_half_even_int)
  also from k [symmetric] qn have "\<dots> = real n" by simp
  finally have r: "of_int (round_half_even (real n / ?q)) * ?q = real n" .
  from assms have "real n \<le> 2 ^ 53"
    by (metis of_nat_le_iff of_nat_numeral of_nat_power)
  with two_53_below_limit have lt: "\<not> pow2 1024 \<le> real n" by simp
  from pos show ?thesis
    by (simp add: fl_def Let_def e r lt)
qed

lemma fl_of_int:
  assumes "\<bar>i\<bar> \<le> 2 ^ 53"
  shows "fl (of_int i) = Num (of_int i)"
proof (cases "0 \<le> i")
  case True
  with assms have "nat i \<le> 2 ^ 53" by (simp add: nat_le_iff)
  from fl_of_nat [OF this] True show ?thesis by simp
next
  case False
  with assms have "nat (- i) \<le> 2 ^ 53" by (simp add: nat_le_iff)
  from fl_of_nat [OF this] False have "fl (- of_int i) = Num (- of_int i)" by simp
  then have "fneg (fl (of_int i)) = Num (- of_int i)" by (simp add: fl_neg)
  then show ?thesis by (cases "fl (of_int i)") simp_all
qed

lemma fadd_whole:
  "a + b \<le> 2 ^ 53 \<Longrightarrow> fadd (Num (real a)) (Num (real b)) = Num (real (a + b))"
  using fl_of_nat [of "a + b"] by simp

lemma fmul_whole:
  "a * b \<le> 2 ^ 53 \<Longrightarrow> fmul (Num (real a)) (Num (real b)) = Num (real (a * b))"
  using fl_of_nat [of "a * b"] by simp

lemma fsub_whole:
  assumes "a \<le> 2 ^ 53" "b \<le> 2 ^ 53"
  shows "fsub (Num (real a)) (Num (real b)) = Num (real a - real b)"
proof -
  from assms have "\<bar>int a - int b\<bar> \<le> 2 ^ 53" by simp
  from fl_of_int [OF this] show ?thesis by (simp add: fsub_def)
qed

lemma reduce_whole:
  "map f ys = map (\<lambda>n. Num (real n)) xs \<Longrightarrow> a + sum_list xs \<le> 2 ^ 53 \<Longrightarrow>
     foldl (\<lambda>sum x. fadd sum (f x)) (Num (real a)) ys = Num (real (a + sum_list xs))"
proof (induction ys arbitrary: a xs)
  case Nil
  then show ?case by simp
next
  case (Cons y ys)
  from Cons.prems(1) obtain x xs' where xs: "xs = x # xs'"
    by (cases xs) simp_all
  with Cons.prems(1) have fy: "f y = Num (real x)"
    and rest: "map f ys = map (\<lambda>n. Num (real n)) xs'"
    by simp_all
  from Cons.prems(2) xs have s1: "a + x \<le> 2 ^ 53" and s2: "(a + x) + sum_list xs' \<le> 2 ^ 53"
    by simp_all
  from Cons.IH [OF rest s2] fadd_whole [OF s1] fy xs show ?case
    by (simp add: add.assoc)
qed

lemmas fl_eval = fl_def ilog2_def pow2_def round_half_even_def bitlength.simps Let_def

section \<open>Payroll arithmetic\<close>

text \<open>
  C1, as amended. For every salary configuration, every number of overtime hours \<open>h\<close> and
  every bonus \<open>b\<close>, \<open>calculateSalary\<close> returns
  \<open>gross = ((base + \<Sigma>a) + h * r) + b\<close> and \<open>net = gross - \<Sigma>d\<close>, where each sum \<open>\<Sigma>\<close> runs
  from 0 through the list from left to right and every \<open>+\<close>, \<open>-\<close> and \<open>*\<close> is the operation
  on doubles, which rounds its exact result to the nearest double. When the base salary,
  the allowances, the deductions, \<open>h\<close>, the rate \<open>r\<close> and \<open>b\<close> are non-negative whole
  numbers with \<open>base + \<Sigma>a + h * r + b \<le> 2^53\<close> and \<open>\<Sigma>d \<le> 2^53\<close>, nothing is rounded:
  \<open>gross\<close> is exactly \<open>base + \<Sigma>a + h * r + b\<close> and \<open>net\<close> exactly \<open>gross - \<Sigma>d\<close>.
\<close>

theorem calculateSalary_rounded:
  "gross (calculateSalary config (Some h) (Some b)) =
     fadd (fadd (fadd (baseSalary config)
                   (foldl (\<lambda>sum a. fadd sum (al_amount a)) (Num 0) (allowances config)))
             (fmul h (overtimeRate config))) b
   \<and> net (calculateSalary config (Some h) (Some b)) =
     fsub (gross (calculateSalary config (Some h) (Some b)))
       (foldl (\<lambda>sum d. fadd sum (de_amount d)) (Num 0) (deductions config))
   \<and> (baseSalary config = Num (real B)
        \<and> map al_amount (allowances config) = map (\<lambda>n. Num (real n)) As
        \<and> map de_amount (deductions config) = map (\<lambda>n. Num (real n)) Ds
        \<and> overtimeRate config = Num (real R) \<and> h = Num (real H) \<and> b = Num (real Bn)
        \<and> B + sum_list As + H * R + Bn \<le> 2 ^ 53 \<and> sum_list Ds \<le> 2 ^ 53 \<longrightarrow>
      gross (calculateSalary config (Some h) (Some b)) =
        Num (real (B + sum_list As + H * R + Bn))
      \<and> net (calculateSalary config (Some h) (Some b)) =
        Num (real (B + sum_list As + H * R + Bn) - real (sum_list Ds)))"
proof -
  have g: "gross (calculateSalary config (Some h) (Some b)) =
     fadd (fadd (fadd (baseSalary config)
                   (foldl (\<lambda>sum a. fadd sum (al_amount a)) (Num 0) (allowances config)))
             (fmul h (overtimeRate config))) b"
    by (simp add: calculateSalary_def reduce_sum_def Let_def)
  have n: "net (calculateSalary config (Some h) (Some b)) =
     fsub (gross (calculateSalary config (Some h) (Some b)))
       (foldl (\<lambda>sum d. fadd sum (de_amount d)) (Num 0) (deductions config))"
    by (simp add: calculateSalary_def reduce_sum_def Let_def)
  have w: "gross (calculateSalary config (Some h) (Some b)) =
        Num (real (B + sum_list As + H * R + Bn))
      \<and> net (calculateSalary config (Some h) (Some b)) =
        Num (real (B + sum_list As + H * R + Bn) - real (sum_list Ds))"
    if a: "baseSalary config = Num (real B)
        \<and> map al_amount (allowances config) = map (\<lambda>n. Num (real n)) As
        \<and> map de_amount (deductions config) = map (\<lambda>n. Num (real n)) Ds
        \<and> overtimeRate config = Num (real R) \<and> h = Num (real H) \<and> b = Num (real Bn)
        \<and> B + sum_list As + H * R + Bn \<le> 2 ^ 53 \<and> sum_list Ds \<le> 2 ^ 53"
  proof -
    from a have bs: "baseSalary config = Num (real B)"
      and al: "map al_amount (allowances config) = map (\<lambda>n. Num (real n)) As"
      and de: "map de_amount (deductions config) = map (\<lambda>n. Num (real n)) Ds"
      and rt: "overtimeRate config = Num (real R)" and hh: "h = Num (real H)"
      and bb: "b = Num (real Bn)"
      and tot: "B + sum_list As + H * R + Bn \<le> 2 ^ 53" and dt: "sum_list Ds \<le> 2 ^ 53"
      by simp_all
    from tot have sa: "0 + sum_list As \<le> 2 ^ 53" and s1: "B + sum_list As \<le> 2 ^ 53"
      and s2: "H * R \<le> 2 ^ 53" and s3: "(B + sum_list As) + H * R \<le> 2 ^ 53"
      by simp_all
    from dt have sd: "0 + sum_list Ds \<le> 2 ^ 53" by simp
    from reduce_whole [OF al sa]
    have ta: "foldl (\<lambda>sum a. fadd sum (al_amount a)) (Num 0) (allowances config) =
                Num (real (sum_list As))"
      by simp
    from reduce_whole [OF de sd]
    have td: "foldl (\<lambda>sum d. fadd sum (de_amount d)) (Num 0) (deductions config) =
                Num (real (sum_list Ds))"
      by simp
    have e: "fadd (fadd (fadd (baseSalary config)
                   (foldl (\<lambda>sum a. fadd sum (al_amount a)) (Num 0) (allowances config)))
             (fmul h (overtimeRate config))) b =
        Num (real (B + sum_list As + H * R + Bn))"
      unfolding ta bs hh rt bb fadd_whole [OF s1] fmul_whole [OF s2] fadd_whole [OF s3]
      by (rule fadd_whole [OF tot])
    from g e have gw: "gross (calculateSalary config (Some h) (Some b)) =
        Num (real (B + sum_list As + H * R + Bn))"
      by (rule trans)
    have "net (calculateSalary config (Some h) (Some b)) =
        Num (real (B + sum_list As + H * R + Bn) - real (sum_list Ds))"
      unfolding n gw td by (rule fsub_whole [OF tot dt])
    with gw show ?thesis ..
  qed
  from g n w show ?thesis by blast
qed

theorem calculateSalary_rounded_witness:
  "gross (calculateSalary whole_config (Some (Num 10)) (Some (Num 1000))) = Num 40000
   \<and> net (calculateSalary whole_config (Some (Num 10)) (Some (Num 1000))) = Num 38500"
proof -
  have h: "baseSalary whole_config = Num (real 30000)
        \<and> map al_amount (allowances whole_config) = map (\<lambda>n. Num (real n)) [5000, 2000]
        \<and> map de_amount (deductions whole_config) = map (\<lambda>n. Num (real n)) [1500]
        \<and> overtimeRate whole_config = Num (real 200) \<and> Num 10 = Num (real 10)
        \<and> Num 1000 = Num (real 1000)
        \<and> 30000 + sum_list [5000, 2000] + 10 * 200 + 1000 \<le> (2::nat) ^ 53
        \<and> sum_list [1500] \<le> (2::nat) ^ 53"
    by (simp add: whole_config_def)
  from calculateSalary_rounded [of whole_config "Num 10" "Num 1000" 30000 "[5000, 2000]"
      "[1500]" 200 10 1000] h
  have "gross (calculateSalary whole_config (Some (Num 10)) (Some (Num 1000))) =
        Num (real (30000 + sum_list [5000, 2000] + 10 * 200 + 1000))
      \<and> net (calculateSalary whole_config (Some (Num 10)) (Some (Num 1000))) =
        Num (real (30000 + sum_list [5000, 2000] + 10 * 200 + 1000) - real (sum_list [1500]))"
    by blast
  then show ?thesis by simp
qed

text \<open>
  C1 as stated fails: with base salary 0, no overtime, no bonus and the two allowances
  \<open>0.1\<close> and \<open>0.2\<close>, the gross is the double \<open>0.30000000000000004\<close>, which is not the sum
  of the inputs.
\<close>

theorem calculateSalary_counterexample:
  "map al_amount (allowances tenths_config) = [fl (1 / 10), fl (2 / 10)]
   \<and> baseSalary tenths_config = Num 0 \<and> overtimeRate tenths_config = Num 0
   \<and> gross (calculateSalary tenths_config (Some (Num 0)) (Some (Num 0))) =
       Num (1351079888211149 / 4503599627370496)
   \<and> (1351079888211149 / 4503599627370496 :: real) \<noteq>
       0 + (3602879701896397 / 36028797018963968 + 3602879701896397 / 18014398509481984)
         + 0 * 0 + 0"
  by (simp add: tenths_config_def calculateSalary_def reduce_sum_def fl_eval)

section \<open>Permission check\<close>

text \<open>
  C5. For a signed-in user with role \<open>main_admin\<close>, \<open>hasPermission\<close> is true for every
  module and action; for a signed-in user with any other role it is true exactly when the
  user's permission list has an entry with that module, that action and \<open>granted\<close> set.
\<close>

theorem hasPermission_spec:
  "(u_role u = ''main_admin'' \<longrightarrow> hasPermission (Some u) m a)
   \<and> (u_role u \<noteq> ''main_admin'' \<longrightarrow>
        hasPermission (Some u) m a =
          (\<exists>p \<in> set (permissions u). pm_module p = m \<and> pm_action p = a \<and> granted p))"
  by (simp add: hasPermission_def list_ex_iff)

theorem hasPermission_spec_witness:
  "hasPermission (Some mockAdmin) ''users'' ''delete''
   \<and> hasPermission (Some mockChallanStaff) ''challans'' ''create''
   \<and> \<not> hasPermission (Some mockChallanStaff) ''documents'' ''create''"
proof -
  have admin: "u_role mockAdmin = ''main_admin''"
    by (simp add: mockAdmin_def)
  have staff: "u_role mockChallanStaff \<noteq> ''main_admin''"
    by (simp add: mockChallanStaff_def)
  have yes: "\<exists>p \<in> set (permissions mockChallanStaff).
               pm_module p = ''challans'' \<and> pm_action p = ''create'' \<and> granted p"
    by (simp add: mockChallanStaff_def)
  have no: "\<not> (\<exists>p \<in> set (permissions mockChallanStaff).
               pm_module p = ''documents'' \<and> pm_action p = ''create'' \<and> granted p)"
    by (simp add: mockChallanStaff_def)
  from hasPermission_spec [of mockAdmin "''users''" "''delete''"] admin
  have 1: "hasPermission (Some mockAdmin) ''users'' ''delete''" by blast
  from hasPermission_spec [of mockChallanStaff "''challans''" "''create''"] staff yes
  have 2: "hasPermission (Some mockChallanStaff) ''challans'' ''create''" by blast
  from hasPermission_spec [of mockChallanStaff "''documents''" "''create''"] staff no
  have 3: "\<not> hasPermission (Some mockChallanStaff) ''documents'' ''create''" by blast
  from 1 2 3 show ?thesis by blast
qed

section \<open>Document numbers\<close>

lemma prefix_agreement: "typePrefix ''agreement'' = ''AGREEMENT''"
  unfolding typePrefix_def by code_simp

lemma year_2024: "toString_nat 2024 = ''2024''"
  by code_simp

lemma seq_001: "padStart 3 (CHR ''0'') (toString_nat (Suc 0)) = ''001''"
  by code_simp

lemma seq_002: "padStart 3 (CHR ''0'') (toString_nat (Suc (Suc 0))) = ''002''"
  by code_simp

text \<open>
  C2, as amended. For every document type \<open>T\<close>, when the store holds \<open>n\<close> documents of type
  \<open>T\<close>, whatever the year of their creation, \<open>generateDocumentNumber(T)\<close> returns the prefix
  of \<open>T\<close> (upper case, the first underscore removed), the current year and \<open>n + 1\<close> padded
  with zeros to at least three characters, separated by slashes.
\<close>

theorem generateDocumentNumber_format:
  "generateDocumentNumber now type' docs =
     typePrefix type' @ ''/'' @ toString_nat (getFullYear now) @ ''/''
       @ padStart 3 (CHR ''0'')
           (toString_nat (length (filter (\<lambda>d. documentType d = Some type') docs) + 1))
   \<and> 3 \<le> length (padStart 3 (CHR ''0'')
           (toString_nat (length (filter (\<lambda>d. documentType d = Some type') docs) + 1)))"
  by (simp add: generateDocumentNumber_def typePrefix_def Let_def padStart_def)

text \<open>
  C2 as stated fails: with one agreement of 2023 in the store and none of 2024, the number
  generated in 2024 ends in \<open>002\<close>, not in \<open>001\<close>: the count is not taken per year.
\<close>

theorem generateDocumentNumber_counterexample:
  "spec_countThisYear now_2024 ''agreement'' [agreement_2023] = 0
   \<and> generateDocumentNumber now_2024 ''agreement'' [agreement_2023] = ''AGREEMENT/2024/002''
   \<and> generateDocumentNumber now_2024 ''agreement'' [agreement_2023] \<noteq>
       typePrefix ''agreement'' @ ''/'' @ toString_nat (getFullYear now_2024) @ ''/''
         @ padStart 3 (CHR ''0'')
             (toString_nat (spec_countThisYear now_2024 ''agreement'' [agreement_2023] + 1))"
proof -
  have c: "spec_countThisYear now_2024 ''agreement'' [agreement_2023] = 0"
    by (simp add: spec_countThisYear_def agreement_2023_def now_2024_def date_of_def)
  have g: "generateDocumentNumber now_2024 ''agreement'' [agreement_2023] = ''AGREEMENT/2024/002''"
    using prefix_agreement
    by (simp add: generateDocumentNumber_def typePrefix_def Let_def agreement_2023_def
        now_2024_def date_of_def year_2024 seq_002)
  show ?thesis
    unfolding c g by (simp add: prefix_agreement now_2024_def date_of_def year_2024 seq_001)
qed

section \<open>The end-to-end scenario\<close>

lemma generate_first_agreement:
  "generateDocumentNumber now ''agreement'' [] =
     ''AGREEMENT/'' @ toString_nat (getFullYear now) @ ''/001''"
  using prefix_agreement
  by (simp add: generateDocumentNumber_def typePrefix_def Let_def seq_001)

text \<open>
  C3. From the empty document, customer and builder lists in local mode,
  \<open>createDocument\<close> with customer name A, customer phone 123, builder name B and type
  agreement returns a document numbered \<open>AGREEMENT/<current year>/001\<close> with status
  \<open>pending_collection\<close>; afterwards the customer list is exactly one customer, named A
  with phone 123, and the builder list is exactly one builder, named B.
\<close>

theorem createDocument_scenario:
  "\<exists>doc c b s. createDocument db now scenario_data empty_local = (Inr (Some doc), s)
     \<and> documentNumber doc = ''AGREEMENT/'' @ toString_nat (getFullYear now) @ ''/001''
     \<and> d_status doc = pending_collection
     \<and> customers s = [c] \<and> c_name c = ''A'' \<and> c_phone c = ''123''
     \<and> builders s = [b] \<and> b_name b = ''B''"
  by (simp add: createDocument_def scenario_data_def empty_local_def numberOrGenerate_def
      no_document_fields_def truthy_opt_def generate_first_agreement newLocalDocument_def
      spread_Document_def
      or_field_def or_opt_def or_str_def linkCustomer_def linkBuilder_def truthy_str_def
      getCustomerByPhone_def getBuilderByName_def createCustomer_def createBuilder_def
      no_customer_fields_def no_builder_fields_def spread_Customer_def spread_Builder_def Let_def)

section \<open>The gateway never throws\<close>

lemma failure_fields: "\<not> success (failure msg) \<and> error (failure msg) = Some msg"
  by (simp add: failure_def)

lemma query_disconnected:
  "db_config svc = None \<or> \<not> db_isConnected svc \<Longrightarrow>
     query svc fetch sql params = (Inr (failure ''Database not connected''), [])"
  by (auto simp: query_def split: option.splits)

lemma query_connected:
  "db_config svc = Some cfg \<Longrightarrow> db_isConnected svc \<Longrightarrow>
     query svc fetch sql params =
       (try_catch
          (case fetch (queryRequest cfg sql params) of
             Rejects e \<Rightarrow> Inl e
           | Resolves response \<Rightarrow>
               if ok response then json response
               else (case text_body response of
                       Inl e \<Rightarrow> Inl e
                     | Inr err \<Rightarrow> Inr (failure (''Query failed: '' @ err))))
          (\<lambda>e. Inr (failure (case e of Error msg \<Rightarrow> msg | NonError \<Rightarrow> ''Unknown database error''))),
        [queryRequest cfg sql params])"
  by (simp add: query_def queryRequest_def Let_def)

text \<open>
  C8. For every SQL string and parameter list \<open>query\<close> returns a result and never throws,
  and it sends at most one request. When the service is not connected (or has no
  configuration) the result is the failure \<open>Database not connected\<close> and nothing is sent.
  When \<open>fetch\<close> rejects, when the response is not OK, or when the body of an OK response
  is not JSON, the result is a failure with an error message; the body of an OK response
  is returned as it is, so an error the server reports there (\<open>success = false\<close> with
  its message) is the result. A failure has \<open>success = false\<close> and an error message.
\<close>

theorem query_never_throws:
  "(\<exists>r. fst (query svc fetch sql params) = Inr r)
   \<and> length (snd (query svc fetch sql params)) \<le> 1
   \<and> (db_config svc = None \<or> \<not> db_isConnected svc \<longrightarrow>
        query svc fetch sql params = (Inr (failure ''Database not connected''), []))
   \<and> (db_config svc = Some cfg \<and> db_isConnected svc \<longrightarrow>
        snd (query svc fetch sql params) = [queryRequest cfg sql params]
        \<and> (\<forall>e. fetch (queryRequest cfg sql params) = Rejects e \<longrightarrow>
              (\<exists>msg. fst (query svc fetch sql params) = Inr (failure msg)))
        \<and> (\<forall>response. fetch (queryRequest cfg sql params) = Resolves response \<and> \<not> ok response \<longrightarrow>
              (\<exists>msg. fst (query svc fetch sql params) = Inr (failure msg)))
        \<and> (\<forall>response e. fetch (queryRequest cfg sql params) = Resolves response \<and> ok response
                \<and> json response = Inl e \<longrightarrow>
              (\<exists>msg. fst (query svc fetch sql params) = Inr (failure msg)))
        \<and> (\<forall>response body. fetch (queryRequest cfg sql params) = Resolves response \<and> ok response
                \<and> json response = Inr body \<longrightarrow>
              fst (query svc fetch sql params) = Inr body))
   \<and> (\<forall>msg. \<not> success (failure msg) \<and> error (failure msg) = Some msg)"
proof (cases "db_config svc = None \<or> \<not> db_isConnected svc")
  case True
  from query_disconnected [OF True] show ?thesis
    using True by (auto simp: failure_fields)
next
  case False
  then obtain cfg' where c: "db_config svc = Some cfg'" and d: "db_isConnected svc"
    by auto
  show ?thesis
    using c d
    by (auto simp: query_connected [OF c d] try_catch_def failure_fields
        split: fetch_outcome.splits sum.splits thrown.splits)
qed

theorem query_never_throws_witness:
  "query disconnected_service (\<lambda>r. Rejects NonError) ''SELECT 1'' [] =
     (Inr (failure ''Database not connected''), [])
   \<and> (\<exists>msg. fst (query connected_service (\<lambda>r. Rejects (Error ''Failed to fetch'')) ''SELECT 1'' [])
          = Inr (failure msg))
   \<and> (\<exists>msg. fst (query connected_service (\<lambda>r. Resolves response_500) ''SELECT 1'' [])
          = Inr (failure msg))
   \<and> fst (query connected_service (\<lambda>r. Resolves response_sql_error) ''SELECT 1'' [])
          = Inr (failure ''Table does not exist'')"
proof -
  have off: "db_config disconnected_service = None \<or> \<not> db_isConnected disconnected_service"
    by (simp add: disconnected_service_def)
  have on: "db_config connected_service = Some example_config \<and> db_isConnected connected_service"
    by (simp add: connected_service_def)
  have r500: "\<not> ok response_500"
    by (simp add: response_500_def)
  have rsql: "ok response_sql_error \<and> json response_sql_error = Inr (failure ''Table does not exist'')"
    by (simp add: response_sql_error_def)
  from query_never_throws [of disconnected_service "\<lambda>r. Rejects NonError" "''SELECT 1''" "[]"] off
  have 1: "query disconnected_service (\<lambda>r. Rejects NonError) ''SELECT 1'' [] =
     (Inr (failure ''Database not connected''), [])" by blast
  from query_never_throws [of connected_service "\<lambda>r. Rejects (Error ''Failed to fetch'')"
      "''SELECT 1''" "[]" example_config] on
  have 2: "\<exists>msg. fst (query connected_service (\<lambda>r. Rejects (Error ''Failed to fetch'')) ''SELECT 1'' [])
          = Inr (failure msg)" by blast
  from query_never_throws [of connected_service "\<lambda>r. Resolves response_500"
      "''SELECT 1''" "[]" example_config] on r500
  have 3: "\<exists>msg. fst (query connected_service (\<lambda>r. Resolves response_500) ''SELECT 1'' [])
          = Inr (failure msg)" by blast
  from query_never_throws [of connected_service "\<lambda>r. Resolves response_sql_error"
      "''SELECT 1''" "[]" example_config] on rsql
  have 4: "fst (query connected_service (\<lambda>r. Resolves response_sql_error) ''SELECT 1'' [])
          = Inr (failure ''Table does not exist'')" by blast
  from 1 2 3 4 show ?thesis by blast
qed

section \<open>Status updates\<close>

lemma spread_status:
  "spread_Document doc (no_document_fields\<lparr>pd_status := Some st, pd_updatedAt := Some now\<rparr>) =
     doc\<lparr>d_status := st, d_updatedAt := now\<rparr>"
  by (simp add: spread_Document_def no_document_fields_def or_field_def or_opt_def)

lemma updateStatus_local:
  "\<not> isConnected s \<Longrightarrow>
     updateStatus db now ident st s =
       (Inr (), s\<lparr>documents := map (\<lambda>d. if d_id d = ident then d\<lparr>d_status := st, d_updatedAt := now\<rparr>
                                         else d) (documents s)\<rparr>)"
  by (simp add: updateStatus_def updateDocument_def Let_def spread_status)

lemma updateStatus_connected:
  "isConnected s \<Longrightarrow>
     updateStatus db now ident st s =
       (if success (dbUpdateDocument db) then (Inr (), loadDocumentsFromDatabase db s)
        else (Inl (Error (or_str (error (dbUpdateDocument db)) ''Failed to update document'')), s))"
  by (simp add: updateStatus_def updateDocument_def Let_def)

text \<open>
  C9, as amended. In local mode, for every document of the store, whatever its status
  \<open>s1\<close>, and for every status \<open>s2\<close>, \<open>updateStatus(id, s2)\<close> succeeds and afterwards
  every document with that id has status \<open>s2\<close>: the store is the old one with the status
  and \<open>updatedAt\<close> of those documents replaced. No transition is rejected in either
  mode: in connected mode \<open>updateStatus\<close> throws exactly when the remote update reports
  a failure, and otherwise leaves the list that the reload installs.
\<close>

theorem updateStatus_any_transition:
  "(\<not> isConnected s \<longrightarrow>
      updateStatus db now ident st s =
        (Inr (), s\<lparr>documents := map (\<lambda>d. if d_id d = ident then d\<lparr>d_status := st, d_updatedAt := now\<rparr>
                                          else d) (documents s)\<rparr>)
      \<and> list_all (\<lambda>d. d_id d = ident \<longrightarrow> d_status d = st)
           (documents (snd (updateStatus db now ident st s)))
      \<and> (doc \<in> set (documents s) \<and> d_id doc = ident \<longrightarrow>
           doc\<lparr>d_status := st, d_updatedAt := now\<rparr>
             \<in> set (documents (snd (updateStatus db now ident st s)))))
   \<and> (isConnected s \<longrightarrow>
        ((\<exists>e. fst (updateStatus db now ident st s) = Inl e) \<longleftrightarrow> \<not> success (dbUpdateDocument db))
        \<and> (success (dbUpdateDocument db) \<longrightarrow>
              updateStatus db now ident st s = (Inr (), loadDocumentsFromDatabase db s)))"
proof (cases "isConnected s")
  case True
  then show ?thesis
    by (simp add: updateStatus_connected)
next
  case False
  let ?f = "\<lambda>d. if d_id d = ident then d\<lparr>d_status := st, d_updatedAt := now\<rparr> else d"
  have eq: "updateStatus db now ident st s = (Inr (), s\<lparr>documents := map ?f (documents s)\<rparr>)"
    by (rule updateStatus_local [OF False])
  have docs: "documents (snd (updateStatus db now ident st s)) = map ?f (documents s)"
    unfolding eq by simp
  have all: "list_all (\<lambda>d. d_id d = ident \<longrightarrow> d_status d = st) (map ?f xs)"
    for xs :: "Document list"
    by (induction xs) simp_all
  have mem: "doc \<in> set (documents s) \<and> d_id doc = ident \<longrightarrow>
      doc\<lparr>d_status := st, d_updatedAt := now\<rparr> \<in> set (map ?f (documents s))"
  proof
    assume a: "doc \<in> set (documents s) \<and> d_id doc = ident"
    then have "?f doc \<in> set (map ?f (documents s))" by simp
    with a show "doc\<lparr>d_status := st, d_updatedAt := now\<rparr> \<in> set (map ?f (documents s))" by simp
  qed
  from False eq all [of "documents s"] mem show ?thesis
    unfolding docs by blast
qed

theorem updateStatus_any_transition_witness:
  "updateStatus remote_down now_2024 ''DOC1686823200000'' pending_collection local_with_agreement =
     (Inr (), local_with_agreement
        \<lparr>documents := [agreement_2023\<lparr>d_status := pending_collection, d_updatedAt := now_2024\<rparr>]\<rparr>)
   \<and> (\<exists>e. fst (updateStatus remote_down now_2024 ''DOC1686823200000'' pending_collection
                 connected_with_agreement) = Inl e)"
proof -
  have l: "\<not> isConnected local_with_agreement"
    and ld: "documents local_with_agreement = [agreement_2023]"
    by (simp_all add: local_with_agreement_def)
  have i: "d_id agreement_2023 = ''DOC1686823200000''"
    by (simp add: agreement_2023_def)
  have c: "isConnected connected_with_agreement"
    by (simp add: connected_with_agreement_def)
  have f: "\<not> success (dbUpdateDocument remote_down)"
    by (simp add: remote_down_def failure_def)
  from updateStatus_any_transition [of local_with_agreement remote_down now_2024
      "''DOC1686823200000''" pending_collection] l
  have "updateStatus remote_down now_2024 ''DOC1686823200000'' pending_collection local_with_agreement =
     (Inr (), local_with_agreement
        \<lparr>documents := map (\<lambda>d. if d_id d = ''DOC1686823200000''
                                then d\<lparr>d_status := pending_collection, d_updatedAt := now_2024\<rparr>
                                else d) (documents local_with_agreement)\<rparr>)"
    by blast
  then have 1: "updateStatus remote_down now_2024 ''DOC1686823200000'' pending_collection local_with_agreement =
     (Inr (), local_with_agreement
        \<lparr>documents := [agreement_2023\<lparr>d_status := pending_collection, d_updatedAt := now_2024\<rparr>]\<rparr>)"
    by (simp add: ld i)
  from updateStatus_any_transition [of connected_with_agreement remote_down now_2024
      "''DOC1686823200000''" pending_collection] c f
  have 2: "\<exists>e. fst (updateStatus remote_down now_2024 ''DOC1686823200000'' pending_collection
                 connected_with_agreement) = Inl e"
    by blast
  from 1 2 show ?thesis by blast
qed

text \<open>
  C9 as stated fails in connected mode: when the remote update fails, \<open>updateStatus\<close>
  throws and the document keeps its status.
\<close>

theorem updateStatus_counterexample:
  "d_id agreement_2023 = ''DOC1686823200000''
   \<and> agreement_2023 \<in> set (documents connected_with_agreement)
   \<and> updateStatus remote_down now_2024 ''DOC1686823200000'' pending_collection
        connected_with_agreement =
      (Inl (Error ''Query failed: Bad Gateway''), connected_with_agreement)
   \<and> d_status agreement_2023 \<noteq> pending_collection"
  by (simp add: updateStatus_def updateDocument_def Let_def connected_with_agreement_def
      remote_down_def failure_def or_str_def agreement_2023_def)

section \<open>Linking a document to a customer or a builder\<close>

lemma find_map_preserve:
  "(\<And>x. P (f x) = P x) \<Longrightarrow> List.find P (map f xs) = map_option f (List.find P xs)"
  by (induction xs) simp_all

lemma find_Some_holds: "List.find P xs = Some x \<Longrightarrow> P x"
  by (induction xs) (simp_all split: if_splits)

lemma spread_customer_documents:
  "spread_Customer c (no_customer_fields\<lparr>pc_documents := Some l\<rparr>) = c\<lparr>c_documents := l\<rparr>"
  by (simp add: spread_Customer_def no_customer_fields_def or_field_def or_opt_def)

lemma spread_builder_documents:
  "spread_Builder b (no_builder_fields\<lparr>pb_documents := Some l\<rparr>) = b\<lparr>b_documents := l\<rparr>"
  by (simp add: spread_Builder_def no_builder_fields_def or_field_def or_opt_def)

lemma addDocumentToCustomer_present:
  "getCustomer cid cs = Some c \<Longrightarrow> did \<in> set (c_documents c) \<Longrightarrow>
     addDocumentToCustomer conn db cid did cs = (Inr (), cs)"
  by (simp add: addDocumentToCustomer_def)

lemma addDocumentToCustomer_absent:
  "getCustomer cid cs = None \<Longrightarrow> addDocumentToCustomer conn db cid did cs = (Inr (), cs)"
  by (simp add: addDocumentToCustomer_def)

lemma addDocumentToCustomer_local:
  "getCustomer cid cs = Some c \<Longrightarrow> did \<notin> set (c_documents c) \<Longrightarrow>
     addDocumentToCustomer False db cid did cs =
       (Inr (), map (\<lambda>x. if c_id x = cid then x\<lparr>c_documents := c_documents c @ [did]\<rparr> else x) cs)"
  by (simp add: addDocumentToCustomer_def updateCustomer_def spread_customer_documents)

lemma getCustomer_after_append:
  assumes "getCustomer cid cs = Some c"
  shows "getCustomer cid (map (\<lambda>x. if c_id x = cid then x\<lparr>c_documents := l\<rparr> else x) cs) =
           Some (c\<lparr>c_documents := l\<rparr>)"
proof -
  let ?f = "\<lambda>x. if c_id x = cid then x\<lparr>c_documents := l\<rparr> else x"
  have "List.find (\<lambda>x. c_id x = cid) (map ?f cs) = map_option ?f (List.find (\<lambda>x. c_id x = cid) cs)"
    by (rule find_map_preserve) simp
  moreover from assms have "c_id c = cid"
    unfolding getCustomer_def by (rule find_Some_holds)
  ultimately show ?thesis
    using assms by (simp add: getCustomer_def)
qed

lemma customers_distinct_kept:
  "distinct l \<Longrightarrow> list_all (\<lambda>x. distinct (c_documents x)) cs \<Longrightarrow>
     list_all (\<lambda>x. distinct (c_documents x))
       (map (\<lambda>x. if c_id x = cid then x\<lparr>c_documents := l\<rparr> else x) cs)"
  by (induction cs) simp_all

lemma getCustomer_member: "getCustomer cid cs = Some c \<Longrightarrow> c \<in> set cs"
  unfolding getCustomer_def by (induction cs) (simp_all split: if_splits)

lemma addDocumentToCustomer_distinct:
  assumes "list_all (\<lambda>x. distinct (c_documents x)) cs"
  shows "list_all (\<lambda>x. distinct (c_documents x)) (snd (addDocumentToCustomer False db cid did cs))"
proof (cases "getCustomer cid cs")
  case None
  then show ?thesis using assms by (simp add: addDocumentToCustomer_absent)
next
  case (Some c)
  show ?thesis
  proof (cases "did \<in> set (c_documents c)")
    case True
    with Some assms show ?thesis by (simp add: addDocumentToCustomer_present)
  next
    case False
    from Some have "c \<in> set cs" by (rule getCustomer_member)
    with assms have "distinct (c_documents c)" by (simp add: list_all_iff)
    with False have "distinct (c_documents c @ [did])" by simp
    from customers_distinct_kept [OF this assms] Some False show ?thesis
      by (simp add: addDocumentToCustomer_local)
  qed
qed

lemma addDocumentToCustomer_twice:
  "snd (addDocumentToCustomer False db cid did (snd (addDocumentToCustomer False db cid did cs))) =
     snd (addDocumentToCustomer False db cid did cs)"
proof (cases "getCustomer cid cs")
  case None
  then show ?thesis by (simp add: addDocumentToCustomer_absent)
next
  case (Some c)
  show ?thesis
  proof (cases "did \<in> set (c_documents c)")
    case True
    with Some show ?thesis by (simp add: addDocumentToCustomer_present)
  next
    case False
    let ?cs = "map (\<lambda>x. if c_id x = cid then x\<lparr>c_documents := c_documents c @ [did]\<rparr> else x) cs"
    have 1: "addDocumentToCustomer False db cid did cs = (Inr (), ?cs)"
      using Some False by (rule addDocumentToCustomer_local)
    have "getCustomer cid ?cs = Some (c\<lparr>c_documents := c_documents c @ [did]\<rparr>)"
      using Some by (rule getCustomer_after_append)
    then have "addDocumentToCustomer False db cid did ?cs = (Inr (), ?cs)"
      by (rule addDocumentToCustomer_present) simp
    with 1 show ?thesis by simp
  qed
qed

lemma addDocumentToBuilder_present:
  "getBuilder bid bs = Some b \<Longrightarrow> did \<in> set (b_documents b) \<Longrightarrow>
     addDocumentToBuilder conn db bid did bs = (Inr (), bs)"
  by (simp add: addDocumentToBuilder_def)

lemma addDocumentToBuilder_absent:
  "getBuilder bid bs = None \<Longrightarrow> addDocumentToBuilder conn db bid did bs = (Inr (), bs)"
  by (simp add: addDocumentToBuilder_def)

lemma addDocumentToBuilder_local:
  "getBuilder bid bs = Some b \<Longrightarrow> did \<notin> set (b_documents b) \<Longrightarrow>
     addDocumentToBuilder False db bid did bs =
       (Inr (), map (\<lambda>x. if b_id x = bid then x\<lparr>b_documents := b_documents b @ [did]\<rparr> else x) bs)"
  by (simp add: addDocumentToBuilder_def updateBuilder_def spread_builder_documents)

lemma getBuilder_after_append:
  assumes "getBuilder bid bs = Some b"
  shows "getBuilder bid (map (\<lambda>x. if b_id x = bid then x\<lparr>b_documents := l\<rparr> else x) bs) =
           Some (b\<lparr>b_documents := l\<rparr>)"
proof -
  let ?f = "\<lambda>x. if b_id x = bid then x\<lparr>b_documents := l\<rparr> else x"
  have "List.find (\<lambda>x. b_id x = bid) (map ?f bs) = map_option ?f (List.find (\<lambda>x. b_id x = bid) bs)"
    by (rule find_map_preserve) simp
  moreover from assms have "b_id b = bid"
    unfolding getBuilder_def by (rule find_Some_holds)
  ultimately show ?thesis
    using assms by (simp add: getBuilder_def)
qed

lemma builders_distinct_kept:
  "distinct l \<Longrightarrow> list_all (\<lambda>x. distinct (b_documents x)) bs \<Longrightarrow>
     list_all (\<lambda>x. distinct (b_documents x))
       (map (\<lambda>x. if b_id x = bid then x\<lparr>b_documents := l\<rparr> else x) bs)"
  by (induction bs) simp_all

lemma getBuilder_member: "getBuilder bid bs = Some b \<Longrightarrow> b \<in> set bs"
  unfolding getBuilder_def by (induction bs) (simp_all split: if_splits)

lemma addDocumentToBuilder_distinct:
  assumes "list_all (\<lambda>x. distinct (b_documents x)) bs"
  shows "list_all (\<lambda>x. distinct (b_documents x)) (snd (addDocumentToBuilder False db bid did bs))"
proof (cases "getBuilder bid bs")
  case None
  then show ?thesis using assms by (simp add: addDocumentToBuilder_absent)
next
  case (Some b)
  show ?thesis
  proof (cases "did \<in> set (b_documents b)")
    case True
    with Some assms show ?thesis by (simp add: addDocumentToBuilder_present)
  next
    case False
    from Some have "b \<in> set bs" by (rule getBuilder_member)
    with assms have "distinct (b_documents b)" by (simp add: list_all_iff)
    with False have "distinct (b_documents b @ [did])" by simp
    from builders_distinct_kept [OF this assms] Some False show ?thesis
      by (simp add: addDocumentToBuilder_local)
  qed
qed

lemma addDocumentToBuilder_twice:
  "snd (addDocumentToBuilder False db bid did (snd (addDocumentToBuilder False db bid did bs))) =
     snd (addDocumentToBuilder False db bid did bs)"
proof (cases "getBuilder bid bs")
  case None
  then show ?thesis by (simp add: addDocumentToBuilder_absent)
next
  case (Some b)
  show ?thesis
  proof (cases "did \<in> set (b_documents b)")
    case True
    with Some show ?thesis by (simp add: addDocumentToBuilder_present)
  next
    case False
    let ?bs = "map (\<lambda>x. if b_id x = bid then x\<lparr>b_documents := b_documents b @ [did]\<rparr> else x) bs"
    have 1: "addDocumentToBuilder False db bid did bs = (Inr (), ?bs)"
      using Some False by (rule addDocumentToBuilder_local)
    have "getBuilder bid ?bs = Some (b\<lparr>b_documents := b_documents b @ [did]\<rparr>)"
      using Some by (rule getBuilder_after_append)
    then have "addDocumentToBuilder False db bid did ?bs = (Inr (), ?bs)"
      by (rule addDocumentToBuilder_present) simp
    with 1 show ?thesis by simp
  qed
qed


text \<open>
  C10, as amended. Let the party be the first customer (builder) with the given id. If
  the document id is already in the party's list, \<open>addDocumentToCustomer\<close>
  (\<open>addDocumentToBuilder\<close>) leaves the store unchanged, in either mode. In local mode: if
  the id is not in the list, the party's list becomes the old list with the id appended
  once; lists free of duplicates stay free of duplicates; and calling the operation a
  second time changes nothing.
\<close>

theorem addDocument_idempotent:
  "(getCustomer cid cs = Some c \<and> did \<in> set (c_documents c) \<longrightarrow>
      addDocumentToCustomer conn db cid did cs = (Inr (), cs))
   \<and> (getCustomer cid cs = Some c \<and> did \<notin> set (c_documents c) \<longrightarrow>
      addDocumentToCustomer False db cid did cs =
        (Inr (), map (\<lambda>x. if c_id x = cid then x\<lparr>c_documents := c_documents c @ [did]\<rparr> else x) cs)
      \<and> getCustomer cid (snd (addDocumentToCustomer False db cid did cs)) =
            Some (c\<lparr>c_documents := c_documents c @ [did]\<rparr>))
   \<and> (list_all (\<lambda>x. distinct (c_documents x)) cs \<longrightarrow>
      list_all (\<lambda>x. distinct (c_documents x)) (snd (addDocumentToCustomer False db cid did cs)))
   \<and> snd (addDocumentToCustomer False db cid did (snd (addDocumentToCustomer False db cid did cs))) =
      snd (addDocumentToCustomer False db cid did cs)
   \<and> (getBuilder bid bs = Some b \<and> did \<in> set (b_documents b) \<longrightarrow>
      addDocumentToBuilder conn db bid did bs = (Inr (), bs))
   \<and> (getBuilder bid bs = Some b \<and> did \<notin> set (b_documents b) \<longrightarrow>
      addDocumentToBuilder False db bid did bs =
        (Inr (), map (\<lambda>x. if b_id x = bid then x\<lparr>b_documents := b_documents b @ [did]\<rparr> else x) bs)
      \<and> getBuilder bid (snd (addDocumentToBuilder False db bid did bs)) =
            Some (b\<lparr>b_documents := b_documents b @ [did]\<rparr>))
   \<and> (list_all (\<lambda>x. distinct (b_documents x)) bs \<longrightarrow>
      list_all (\<lambda>x. distinct (b_documents x)) (snd (addDocumentToBuilder False db bid did bs)))
   \<and> snd (addDocumentToBuilder False db bid did (snd (addDocumentToBuilder False db bid did bs))) =
      snd (addDocumentToBuilder False db bid did bs)"
proof -
  have c1: "getCustomer cid cs = Some c \<and> did \<in> set (c_documents c) \<longrightarrow>
      addDocumentToCustomer conn db cid did cs = (Inr (), cs)"
    by (simp add: addDocumentToCustomer_present)
  have c2: "getCustomer cid cs = Some c \<and> did \<notin> set (c_documents c) \<longrightarrow>
      addDocumentToCustomer False db cid did cs =
        (Inr (), map (\<lambda>x. if c_id x = cid then x\<lparr>c_documents := c_documents c @ [did]\<rparr> else x) cs)
      \<and> getCustomer cid (snd (addDocumentToCustomer False db cid did cs)) =
            Some (c\<lparr>c_documents := c_documents c @ [did]\<rparr>)"
    by (simp add: addDocumentToCustomer_local getCustomer_after_append)
  have c3: "list_all (\<lambda>x. distinct (c_documents x)) cs \<longrightarrow>
      list_all (\<lambda>x. distinct (c_documents x)) (snd (addDocumentToCustomer False db cid did cs))"
    using addDocumentToCustomer_distinct by blast
  have b1: "getBuilder bid bs = Some b \<and> did \<in> set (b_documents b) \<longrightarrow>
      addDocumentToBuilder conn db bid did bs = (Inr (), bs)"
    by (simp add: addDocumentToBuilder_present)
  have b2: "getBuilder bid bs = Some b \<and> did \<notin> set (b_documents b) \<longrightarrow>
      addDocumentToBuilder False db bid did bs =
        (Inr (), map (\<lambda>x. if b_id x = bid then x\<lparr>b_documents := b_documents b @ [did]\<rparr> else x) bs)
      \<and> getBuilder bid (snd (addDocumentToBuilder False db bid did bs)) =
            Some (b\<lparr>b_documents := b_documents b @ [did]\<rparr>)"
    by (simp add: addDocumentToBuilder_local getBuilder_after_append)
  have b3: "list_all (\<lambda>x. distinct (b_documents x)) bs \<longrightarrow>
      list_all (\<lambda>x. distinct (b_documents x)) (snd (addDocumentToBuilder False db bid did bs))"
    using addDocumentToBuilder_distinct by blast
  from c1 c2 c3 addDocumentToCustomer_twice [of db cid did cs]
       b1 b2 b3 addDocumentToBuilder_twice [of db bid did bs]
  show ?thesis by blast
qed


theorem addDocument_idempotent_witness:
  "addDocumentToCustomer False remote_down ''CUST001'' ''DOC1686823200000'' [customer_A] =
     (Inr (), [customer_A])
   \<and> addDocumentToCustomer False remote_down ''CUST001'' ''DOC1718445600000'' [customer_A] =
     (Inr (), [customer_A\<lparr>c_documents := [''DOC1686823200000'', ''DOC1718445600000'']\<rparr>])
   \<and> list_all (\<lambda>x. distinct (c_documents x))
        (snd (addDocumentToCustomer False remote_down ''CUST001'' ''DOC1718445600000'' [customer_A]))
   \<and> addDocumentToBuilder False remote_down ''BLD001'' ''DOC1686823200000'' [builder_B] =
     (Inr (), [builder_B])
   \<and> addDocumentToBuilder False remote_down ''BLD001'' ''DOC1718445600000'' [builder_B] =
     (Inr (), [builder_B\<lparr>b_documents := [''DOC1686823200000'', ''DOC1718445600000'']\<rparr>])
   \<and> list_all (\<lambda>x. distinct (b_documents x))
        (snd (addDocumentToBuilder False remote_down ''BLD001'' ''DOC1718445600000'' [builder_B]))"
proof -
  have gc: "getCustomer ''CUST001'' [customer_A] = Some customer_A"
    by (simp add: getCustomer_def customer_A_def)
  have gb: "getBuilder ''BLD001'' [builder_B] = Some builder_B"
    by (simp add: getBuilder_def builder_B_def)
  have dc: "c_documents customer_A = [''DOC1686823200000'']" and ic: "c_id customer_A = ''CUST001''"
    by (simp_all add: customer_A_def)
  have db: "b_documents builder_B = [''DOC1686823200000'']" and ib: "b_id builder_B = ''BLD001''"
    by (simp_all add: builder_B_def)
  have old: "''DOC1686823200000'' \<in> set (c_documents customer_A)"
    "''DOC1686823200000'' \<in> set (b_documents builder_B)"
    by (simp_all add: dc db)
  have new: "''DOC1718445600000'' \<notin> set (c_documents customer_A)"
    "''DOC1718445600000'' \<notin> set (b_documents builder_B)"
    by (simp_all add: dc db)
  have dist: "list_all (\<lambda>x. distinct (c_documents x)) [customer_A]"
    "list_all (\<lambda>x. distinct (b_documents x)) [builder_B]"
    by (simp_all add: dc db)
  note present = addDocument_idempotent [of "''CUST001''" "[customer_A]" customer_A
      "''DOC1686823200000''" False remote_down "''BLD001''" "[builder_B]" builder_B]
  note absent = addDocument_idempotent [of "''CUST001''" "[customer_A]" customer_A
      "''DOC1718445600000''" False remote_down "''BLD001''" "[builder_B]" builder_B]
  from present gc gb old
  have 1: "addDocumentToCustomer False remote_down ''CUST001'' ''DOC1686823200000'' [customer_A] =
     (Inr (), [customer_A])"
    and 4: "addDocumentToBuilder False remote_down ''BLD001'' ''DOC1686823200000'' [builder_B] =
     (Inr (), [builder_B])"
    by blast+
  from absent gc new
  have "addDocumentToCustomer False remote_down ''CUST001'' ''DOC1718445600000'' [customer_A] =
     (Inr (), map (\<lambda>x. if c_id x = ''CUST001''
                         then x\<lparr>c_documents := c_documents customer_A @ [''DOC1718445600000'']\<rparr>
                         else x) [customer_A])"
    by blast
  then have 2: "addDocumentToCustomer False remote_down ''CUST001'' ''DOC1718445600000'' [customer_A] =
     (Inr (), [customer_A\<lparr>c_documents := [''DOC1686823200000'', ''DOC1718445600000'']\<rparr>])"
    by (simp add: dc ic)
  from absent gb new
  have "addDocumentToBuilder False remote_down ''BLD001'' ''DOC1718445600000'' [builder_B] =
     (Inr (), map (\<lambda>x. if b_id x = ''BLD001''
                         then x\<lparr>b_documents := b_documents builder_B @ [''DOC1718445600000'']\<rparr>
                         else x) [builder_B])"
    by blast
  then have 5: "addDocumentToBuilder False remote_down ''BLD001'' ''DOC1718445600000'' [builder_B] =
     (Inr (), [builder_B\<lparr>b_documents := [''DOC1686823200000'', ''DOC1718445600000'']\<rparr>])"
    by (simp add: db ib)
  from absent dist
  have 3: "list_all (\<lambda>x. distinct (c_documents x))
        (snd (addDocumentToCustomer False remote_down ''CUST001'' ''DOC1718445600000'' [customer_A]))"
    and 6: "list_all (\<lambda>x. distinct (b_documents x))
        (snd (addDocumentToBuilder False remote_down ''BLD001'' ''DOC1718445600000'' [builder_B]))"
    by blast+
  from 1 2 3 4 5 6 show ?thesis by blast
qed

text \<open>
  C10 as stated fails in connected mode: when the remote update fails, the operation
  throws and the id, which the list does not contain, is not appended.
\<close>

theorem addDocument_counterexample:
  "getCustomer ''CUST001'' [customer_A] = Some customer_A
   \<and> ''DOC1718445600000'' \<notin> set (c_documents customer_A)
   \<and> addDocumentToCustomer True remote_down ''CUST001'' ''DOC1718445600000'' [customer_A] =
       (Inl (Error ''Query failed: Bad Gateway''), [customer_A])"
  by (simp add: addDocumentToCustomer_def getCustomer_def updateCustomer_def customer_A_def
      remote_down_def failure_def or_str_def Let_def)

section \<open>Attendance hours\<close>

lemma closeRecord_fields:
  assumes "clockInTime ex = Some t0"
  shows "\<exists>rec. closeRecord settings now notes ex = Inr rec
           \<and> clockOutTime rec = Some now
           \<and> totalHours rec =
               Some (fsub
                 (fdiv (Math_round (fmul (fdiv (fdiv (fsub (number_of_int (getTime now))
                                                        (number_of_int (getTime t0)))
                                                  (fmul (Num 1000) (Num 60))) (Num 60))
                                      (Num 100))) (Num 100))
                 (fdiv (case breakTime ex of None \<Rightarrow> Num 60
                        | Some b \<Rightarrow> if b = Num 0 \<or> b = NaN then Num 60 else b) (Num 60)))
           \<and> overtime rec =
               Some (Math_max (Num 0) (fsub
                 (fsub
                   (fdiv (Math_round (fmul (fdiv (fdiv (fsub (number_of_int (getTime now))
                                                          (number_of_int (getTime t0)))
                                                    (fmul (Num 1000) (Num 60))) (Num 60))
                                        (Num 100))) (Num 100))
                   (fdiv (case breakTime ex of None \<Rightarrow> Num 60
                          | Some b \<Rightarrow> if b = Num 0 \<or> b = NaN then Num 60 else b) (Num 60)))
                 (workingHoursPerDay settings)))"
  using assms unfolding closeRecord_def Let_def by simp

lemma activeRecordToday_clockIn:
  "activeRecordToday u now records = Some ex \<Longrightarrow> \<exists>t0. clockInTime ex = Some t0"
  unfolding activeRecordToday_def Let_def
  by (drule find_Some_holds) auto

text \<open>
  C6, as amended. In local mode, let the signed-in user have a record for today with
  clock-in time \<open>t0\<close> and no clock-out time (the first such record of the list). Then
  \<open>clockOut\<close> at time \<open>t1\<close> returns that record with \<open>totalHours\<close> set to
  \<open>Math.round((((t1 - t0) / (1000 * 60)) / 60) * 100) / 100 - br / 60\<close> (times in
  milliseconds), where every operation is the operation on doubles, rounding its exact
  result to the nearest double, and \<open>br\<close> is the record's break time in minutes, or 60 when
  the record has none or has 0 or \<open>NaN\<close>; and with \<open>overtime\<close> set to
  \<open>Math.max(0, totalHours - workingHoursPerDay)\<close>, the subtraction again on doubles.
  In connected mode, when the call to the remote store throws, \<open>clockOut\<close> throws the
  same value and the records stay as they are.
\<close>

theorem clockOut_hours:
  "(activeRecordToday u now records = Some ex \<longrightarrow>
     (\<exists>t0 rec wh. clockInTime ex = Some t0
        \<and> clockOut (Some u) False svc settings now notes records =
            (Inr rec, map (\<lambda>r. if a_id r = a_id ex then rec else r) records)
        \<and> clockOutTime rec = Some now
        \<and> totalHours rec = Some wh
        \<and> wh = fsub
            (fdiv (Math_round (fmul (fdiv (fdiv (fsub (number_of_int (getTime now))
                                                   (number_of_int (getTime t0)))
                                             (fmul (Num 1000) (Num 60))) (Num 60))
                                 (Num 100))) (Num 100))
            (fdiv (case breakTime ex of None \<Rightarrow> Num 60
                   | Some b \<Rightarrow> if b = Num 0 \<or> b = NaN then Num 60 else b) (Num 60))
        \<and> overtime rec = Some (Math_max (Num 0) (fsub wh (workingHoursPerDay settings)))))
   \<and> clockOut (Some u) True (Inl e) settings now notes records = (Inl e, records)"
proof
  show "activeRecordToday u now records = Some ex \<longrightarrow>
     (\<exists>t0 rec wh. clockInTime ex = Some t0
        \<and> clockOut (Some u) False svc settings now notes records =
            (Inr rec, map (\<lambda>r. if a_id r = a_id ex then rec else r) records)
        \<and> clockOutTime rec = Some now
        \<and> totalHours rec = Some wh
        \<and> wh = fsub
            (fdiv (Math_round (fmul (fdiv (fdiv (fsub (number_of_int (getTime now))
                                                   (number_of_int (getTime t0)))
                                             (fmul (Num 1000) (Num 60))) (Num 60))
                                 (Num 100))) (Num 100))
            (fdiv (case breakTime ex of None \<Rightarrow> Num 60
                   | Some b \<Rightarrow> if b = Num 0 \<or> b = NaN then Num 60 else b) (Num 60))
        \<and> overtime rec = Some (Math_max (Num 0) (fsub wh (workingHoursPerDay settings))))"
  proof
    assume a: "activeRecordToday u now records = Some ex"
    then obtain t0 where t0: "clockInTime ex = Some t0"
      using activeRecordToday_clockIn by blast
    from closeRecord_fields [OF t0, of settings now "notes"]
    obtain rec where rec: "closeRecord settings now notes ex = Inr rec"
      and out: "clockOutTime rec = Some now"
      and hours: "totalHours rec =
               Some (fsub
                 (fdiv (Math_round (fmul (fdiv (fdiv (fsub (number_of_int (getTime now))
                                                        (number_of_int (getTime t0)))
                                                  (fmul (Num 1000) (Num 60))) (Num 60))
                                      (Num 100))) (Num 100))
                 (fdiv (case breakTime ex of None \<Rightarrow> Num 60
                        | Some b \<Rightarrow> if b = Num 0 \<or> b = NaN then Num 60 else b) (Num 60)))"
      and over: "overtime rec =
               Some (Math_max (Num 0) (fsub
                 (fsub
                   (fdiv (Math_round (fmul (fdiv (fdiv (fsub (number_of_int (getTime now))
                                                          (number_of_int (getTime t0)))
                                                    (fmul (Num 1000) (Num 60))) (Num 60))
                                        (Num 100))) (Num 100))
                   (fdiv (case breakTime ex of None \<Rightarrow> Num 60
                          | Some b \<Rightarrow> if b = Num 0 \<or> b = NaN then Num 60 else b) (Num 60)))
                 (workingHoursPerDay settings)))"
      by blast
    have fin: "finishToday u settings now notes records =
          (Inr rec, map (\<lambda>r. if a_id r = a_id ex then rec else r) records)"
      using a rec by (simp add: finishToday_def)
    then have c: "clockOut (Some u) False svc settings now notes records =
          (Inr rec, map (\<lambda>r. if a_id r = a_id ex then rec else r) records)"
      by (simp add: clockOut_def)
    from t0 c out hours over show "\<exists>t0 rec wh. clockInTime ex = Some t0
        \<and> clockOut (Some u) False svc settings now notes records =
            (Inr rec, map (\<lambda>r. if a_id r = a_id ex then rec else r) records)
        \<and> clockOutTime rec = Some now
        \<and> totalHours rec = Some wh
        \<and> wh = fsub
            (fdiv (Math_round (fmul (fdiv (fdiv (fsub (number_of_int (getTime now))
                                                   (number_of_int (getTime t0)))
                                             (fmul (Num 1000) (Num 60))) (Num 60))
                                 (Num 100))) (Num 100))
            (fdiv (case breakTime ex of None \<Rightarrow> Num 60
                   | Some b \<Rightarrow> if b = Num 0 \<or> b = NaN then Num 60 else b) (Num 60))
        \<and> overtime rec = Some (Math_max (Num 0) (fsub wh (workingHoursPerDay settings)))"
      by blast
  qed
next
  show "clockOut (Some u) True (Inl e) settings now notes records = (Inl e, records)"
    by (simp add: clockOut_def)
qed

lemma active_open_record:
  "activeRecordToday mockChallanStaff now_evening [open_record] = Some open_record"
  by (simp add: activeRecordToday_def Let_def mockChallanStaff_def open_record_def
      now_evening_def now_2024_def date_of_def startOfDay_def toDateString_def)

lemma active_nine_record:
  "activeRecordToday mockChallanStaff now_six [nine_record] = Some nine_record"
  by (simp add: activeRecordToday_def Let_def mockChallanStaff_def nine_record_def
      open_record_def now_six_def now_nine_def now_2024_def date_of_def startOfDay_def
      toDateString_def)

lemma minutes_evening:
  "fdiv (fsub (number_of_int 1718478600000) (number_of_int 1718445600000))
     (fmul (Num 1000) (Num 60)) = Num 550"
  by (simp add: number_of_int_def fsub_def fl_eval)

lemma rounded_evening:
  "fdiv (Math_round (fmul (fdiv (Num 550) (Num 60)) (Num 100))) (Num 100) =
     Num (5162251072873431 / 562949953421312)"
  by (simp add: fl_eval)

lemma minutes_six:
  "fdiv (fsub (number_of_int 1718474418000) (number_of_int 1718442000000))
     (fmul (Num 1000) (Num 60)) = Num (2376264529949491 / 4398046511104)"
  by (simp add: number_of_int_def fsub_def fl_eval)

lemma scaled_six:
  "fmul (fdiv (Num (2376264529949491 / 4398046511104)) (Num 60)) (Num 100) =
     Num (7920881766498303 / 8796093022208)"
  by (simp add: fl_eval)

lemma rounded_six:
  "fdiv (Math_round (Num (7920881766498303 / 8796093022208))) (Num 100) = Num 9"
  by (simp add: fl_eval)

lemma hour_break: "fdiv (Num 60) (Num 60) = Num 1"
  by (simp add: fl_eval)

lemma worked_evening:
  "fsub (Num (5162251072873431 / 562949953421312)) (Num 1) =
     Num (4599301119452119 / 562949953421312)"
  by (simp add: fsub_def fl_eval)

lemma over_evening:
  "Math_max (Num 0) (fsub (Num (4599301119452119 / 562949953421312)) (Num 8)) =
     Num (95701492081623 / 562949953421312)"
  by (simp add: fsub_def fl_eval)

lemma worked_six: "fsub (Num 9) (Num 1) = Num 8"
  by (simp add: fsub_def fl_eval)

lemma over_six: "Math_max (Num 0) (fsub (Num 8) (Num 8)) = Num 0"
  by (simp add: fsub_def fl_eval)

theorem clockOut_hours_witness:
  "(\<exists>rec. fst (clockOut (Some mockChallanStaff) False (Inl NonError) defaultAttendanceSettings
               now_evening None [open_record]) = Inr rec
      \<and> totalHours rec = Some (Num (4599301119452119 / 562949953421312))
      \<and> overtime rec = Some (Num (95701492081623 / 562949953421312)))
   \<and> (\<exists>rec. fst (clockOut (Some mockChallanStaff) False (Inl NonError) defaultAttendanceSettings
               now_six None [nine_record]) = Inr rec
      \<and> totalHours rec = Some (Num 8) \<and> overtime rec = Some (Num 0))"
proof -
  have w: "workingHoursPerDay defaultAttendanceSettings = Num 8"
    by (simp add: defaultAttendanceSettings_def)
  have first: "\<exists>rec. fst (clockOut (Some mockChallanStaff) False (Inl NonError)
               defaultAttendanceSettings now_evening None [open_record]) = Inr rec
      \<and> totalHours rec = Some (Num (4599301119452119 / 562949953421312))
      \<and> overtime rec = Some (Num (95701492081623 / 562949953421312))"
  proof -
    from clockOut_hours [of mockChallanStaff now_evening "[open_record]" open_record
        "Inl NonError" defaultAttendanceSettings None NonError] active_open_record
    obtain t0 rec wh where t0: "clockInTime open_record = Some t0"
      and r: "clockOut (Some mockChallanStaff) False (Inl NonError) defaultAttendanceSettings
               now_evening None [open_record] =
            (Inr rec, map (\<lambda>r. if a_id r = a_id open_record then rec else r) [open_record])"
      and hours: "totalHours rec = Some wh"
      and wh: "wh = fsub
            (fdiv (Math_round (fmul (fdiv (fdiv (fsub (number_of_int (getTime now_evening))
                                                   (number_of_int (getTime t0)))
                                             (fmul (Num 1000) (Num 60))) (Num 60))
                                 (Num 100))) (Num 100))
            (fdiv (case breakTime open_record of None \<Rightarrow> Num 60
                   | Some b \<Rightarrow> if b = Num 0 \<or> b = NaN then Num 60 else b) (Num 60))"
      and over: "overtime rec =
            Some (Math_max (Num 0) (fsub wh (workingHoursPerDay defaultAttendanceSettings)))"
      by blast
    from t0 have t: "t0 = now_2024" by (simp add: open_record_def)
    have g: "getTime now_evening = 1718478600000" "getTime now_2024 = 1718445600000"
      by (simp_all add: now_evening_def now_2024_def date_of_def)
    have b: "(case breakTime open_record of None \<Rightarrow> Num 60
              | Some b \<Rightarrow> if b = Num 0 \<or> b = NaN then Num 60 else b) = Num 60"
      by (simp add: open_record_def)
    from wh have v: "wh = Num (4599301119452119 / 562949953421312)"
      unfolding t g b minutes_evening rounded_evening hour_break worked_evening .
    from over have "overtime rec = Some (Num (95701492081623 / 562949953421312))"
      unfolding v w over_evening .
    moreover from hours v
    have "totalHours rec = Some (Num (4599301119452119 / 562949953421312))"
      by simp
    moreover from r have "fst (clockOut (Some mockChallanStaff) False (Inl NonError)
        defaultAttendanceSettings now_evening None [open_record]) = Inr rec"
      by simp
    ultimately show ?thesis by blast
  qed
  have second: "\<exists>rec. fst (clockOut (Some mockChallanStaff) False (Inl NonError)
               defaultAttendanceSettings now_six None [nine_record]) = Inr rec
      \<and> totalHours rec = Some (Num 8) \<and> overtime rec = Some (Num 0)"
  proof -
    from clockOut_hours [of mockChallanStaff now_six "[nine_record]" nine_record
        "Inl NonError" defaultAttendanceSettings None NonError] active_nine_record
    obtain t0 rec wh where t0: "clockInTime nine_record = Some t0"
      and r: "clockOut (Some mockChallanStaff) False (Inl NonError) defaultAttendanceSettings
               now_six None [nine_record] =
            (Inr rec, map (\<lambda>r. if a_id r = a_id nine_record then rec else r) [nine_record])"
      and hours: "totalHours rec = Some wh"
      and wh: "wh = fsub
            (fdiv (Math_round (fmul (fdiv (fdiv (fsub (number_of_int (getTime now_six))
                                                   (number_of_int (getTime t0)))
                                             (fmul (Num 1000) (Num 60))) (Num 60))
                                 (Num 100))) (Num 100))
            (fdiv (case breakTime nine_record of None \<Rightarrow> Num 60
                   | Some b \<Rightarrow> if b = Num 0 \<or> b = NaN then Num 60 else b) (Num 60))"
      and over: "overtime rec =
            Some (Math_max (Num 0) (fsub wh (workingHoursPerDay defaultAttendanceSettings)))"
      by blast
    from t0 have t: "t0 = now_nine" by (simp add: nine_record_def)
    have g: "getTime now_six = 1718474418000" "getTime now_nine = 1718442000000"
      by (simp_all add: now_six_def now_nine_def date_of_def)
    have b: "(case breakTime nine_record of None \<Rightarrow> Num 60
              | Some b \<Rightarrow> if b = Num 0 \<or> b = NaN then Num 60 else b) = Num 60"
      by (simp add: nine_record_def open_record_def)
    from wh have v: "wh = Num 8"
      unfolding t g b minutes_six scaled_six rounded_six hour_break worked_six .
    from over have "overtime rec = Some (Num 0)"
      unfolding v w over_six .
    moreover from hours v have "totalHours rec = Some (Num 8)"
      by simp
    moreover from r have "fst (clockOut (Some mockChallanStaff) False (Inl NonError)
        defaultAttendanceSettings now_six None [nine_record]) = Inr rec"
      by simp
    ultimately show ?thesis by blast
  qed
  from first second show ?thesis ..
qed

lemma half_break: "fdiv (Num 30) (Num 60) = Num (1 / 2)"
  by (simp add: fl_eval)

lemma worked_half:
  "fsub (Num (5162251072873431 / 562949953421312)) (Num (1 / 2)) =
     Num (4880776096162775 / 562949953421312)"
  by (simp add: fsub_def fl_eval)

lemma over_half:
  "Math_max (Num 0) (fsub (Num (4880776096162775 / 562949953421312)) (Num 8)) =
     Num (377176468792279 / 562949953421312)"
  by (simp add: fsub_def fl_eval)

lemma claimed_half:
  "fsub (fdiv (Num 33000) (Num 3600)) (fdiv (Num 30) (Num 60)) =
     Num (4878899596318037 / 562949953421312)"
  by (simp add: fsub_def fl_eval)

lemma close_open_record_30:
  "closeRecord defaultAttendanceSettings now_evening None open_record_30 =
     Inr (open_record_30\<lparr>clockOutTime := Some now_evening,
            totalHours := Some (Num (4880776096162775 / 562949953421312)),
            overtime := Some (Num (377176468792279 / 562949953421312)),
            a_notes := None, a_updatedAt := now_evening\<rparr>)"
proof -
  have t: "clockInTime open_record_30 = Some now_2024"
    and n: "a_notes open_record_30 = None"
    by (simp_all add: open_record_30_def open_record_def)
  have b: "(case breakTime open_record_30 of None \<Rightarrow> Num 60
            | Some b \<Rightarrow> if b = Num 0 \<or> b = NaN then Num 60 else b) = Num 30"
    by (simp add: open_record_30_def open_record_def)
  have g: "getTime now_evening = 1718478600000" "getTime now_2024 = 1718445600000"
    by (simp_all add: now_evening_def now_2024_def date_of_def)
  have w: "workingHoursPerDay defaultAttendanceSettings = Num 8"
    by (simp add: defaultAttendanceSettings_def)
  show ?thesis
    unfolding closeRecord_def Let_def t b g w option.case minutes_evening rounded_evening
      half_break worked_half over_half
    by (simp add: truthy_opt_def n)
qed

text \<open>
  C6 as stated fails: after 33000 seconds with a break of 30 minutes the code stores the
  double \<open>8.67\<close>, the elapsed hours rounded to \<open>9.17\<close> less half an hour; that is neither
  \<open>33000 / 3600 - 30 / 60\<close> computed on doubles nor its exact value.
\<close>

theorem clockOut_hours_counterexample:
  "breakTime open_record_30 = Some (Num 30)
   \<and> clockInTime open_record_30 = Some now_2024
   \<and> getTime now_evening - getTime now_2024 = 33000 * 1000
   \<and> (case clockOut (Some mockChallanStaff) False (Inl NonError) defaultAttendanceSettings
               now_evening None [open_record_30] of
         (Inr rec, recs) \<Rightarrow>
           totalHours rec = Some (Num (4880776096162775 / 562949953421312))
           \<and> totalHours rec \<noteq> Some (fsub (fdiv (Num 33000) (Num 3600)) (fdiv (Num 30) (Num 60)))
           \<and> totalHours rec \<noteq> Some (Num (33000 / 3600 - 30 / 60))
       | (Inl e, recs) \<Rightarrow> False)"
proof -
  have a: "activeRecordToday mockChallanStaff now_evening [open_record_30] = Some open_record_30"
    by (simp add: activeRecordToday_def Let_def mockChallanStaff_def open_record_30_def
        open_record_def now_evening_def now_2024_def date_of_def startOfDay_def toDateString_def)
  have f: "finishToday mockChallanStaff defaultAttendanceSettings now_evening None
             [open_record_30] =
           (Inr (open_record_30\<lparr>clockOutTime := Some now_evening,
                  totalHours := Some (Num (4880776096162775 / 562949953421312)),
                  overtime := Some (Num (377176468792279 / 562949953421312)),
                  a_notes := None, a_updatedAt := now_evening\<rparr>),
            [open_record_30\<lparr>clockOutTime := Some now_evening,
                  totalHours := Some (Num (4880776096162775 / 562949953421312)),
                  overtime := Some (Num (377176468792279 / 562949953421312)),
                  a_notes := None, a_updatedAt := now_evening\<rparr>])"
    by (simp add: finishToday_def a close_open_record_30)
  have c: "clockOut (Some mockChallanStaff) False (Inl NonError) defaultAttendanceSettings
               now_evening None [open_record_30] =
           finishToday mockChallanStaff defaultAttendanceSettings now_evening None
             [open_record_30]"
    by (simp add: clockOut_def)
  have i: "breakTime open_record_30 = Some (Num 30)
     \<and> clockInTime open_record_30 = Some now_2024
     \<and> getTime now_evening - getTime now_2024 = 33000 * 1000"
    by (simp add: open_record_30_def open_record_def now_evening_def now_2024_def date_of_def)
  show ?thesis
    unfolding c f claimed_half using i by simp
qed

section \<open>One attendance record per user and day\<close>

text \<open>
  C7 fails on the code. After \<open>markAttendance\<close> has recorded user 2 as absent on a day,
  the list has one record for that user and day, and marking the day again keeps it so;
  but \<open>clockIn\<close> by user 2 on the same day, in local mode, succeeds and leaves two
  records for that user and day: its check only looks for a record with a clock-in time.
\<close>

theorem clockIn_duplicates_user_day:
  "uniquePerUserDay (snd (markAttendance ''2'' now_2024 absent None now_2024 []))
   \<and> uniquePerUserDay
        (snd (markAttendance ''2'' now_2024 present None now_2024
                (snd (markAttendance ''2'' now_2024 absent None now_2024 []))))
   \<and> (case clockIn (Some mockChallanStaff) False (Inl NonError) defaultAttendanceSettings
               now_2024 None None (snd (markAttendance ''2'' now_2024 absent None now_2024 [])) of
         (Inr r, recs) \<Rightarrow> length recs = 2 \<and> \<not> uniquePerUserDay recs
       | (Inl e, recs) \<Rightarrow> False)"
  by (simp add: markAttendance_def clockIn_def Let_def uniquePerUserDay_def mockChallanStaff_def
      now_2024_def date_of_def startOfDay_def toDateString_def)

section \<open>Two documents for one customer phone\<close>

lemma count_phone_map:
  "length (filter (\<lambda>c. c_phone c = p) cs) = length (filter (\<lambda>q. q = p) (map c_phone cs))"
  by (induction cs) simp_all

lemma getCustomerByPhone_member: "getCustomerByPhone p cs = Some c \<Longrightarrow> c \<in> set cs"
  unfolding getCustomerByPhone_def by (induction cs) (simp_all split: if_splits)

lemma addDocumentToCustomer_local_ok:
  "fst (addDocumentToCustomer False db cid did cs) = Inr ()"
  by (cases "getCustomer cid cs")
     (simp_all add: addDocumentToCustomer_def updateCustomer_def)

lemma addDocumentToCustomer_phones:
  "map c_phone (snd (addDocumentToCustomer False db cid did cs)) = map c_phone cs"
proof (cases "getCustomer cid cs")
  case None
  then show ?thesis by (simp add: addDocumentToCustomer_absent)
next
  case (Some c)
  show ?thesis
  proof (cases "did \<in> set (c_documents c)")
    case True
    with Some show ?thesis by (simp add: addDocumentToCustomer_present)
  next
    case False
    have "map c_phone (map (\<lambda>x. if c_id x = cid then x\<lparr>c_documents := l\<rparr> else x) xs) = map c_phone xs"
      for l and xs :: "Customer list"
      by (induction xs) simp_all
    with Some False show ?thesis by (simp add: addDocumentToCustomer_local)
  qed
qed

lemma getCustomer_distinct:
  "distinct (map c_id cs) \<Longrightarrow> c \<in> set cs \<Longrightarrow> getCustomer (c_id c) cs = Some c"
  unfolding getCustomer_def
proof (induction cs)
  case Nil
  then show ?case by simp
next
  case (Cons x xs)
  show ?case
  proof (cases "c = x")
    case True
    then show ?thesis by simp
  next
    case False
    with Cons.prems have m: "c \<in> set xs" by simp
    then have "c_id c \<in> set (map c_id xs)" by simp
    with Cons.prems have "c_id x \<noteq> c_id c" by auto
    with Cons.IH Cons.prems m show ?thesis by simp
  qed
qed

lemma map_by_id_distinct:
  "distinct (map c_id cs) \<Longrightarrow> c \<in> set cs \<Longrightarrow>
     map (\<lambda>x. if c_id x = c_id c then x\<lparr>c_documents := l\<rparr> else x) cs =
     map (\<lambda>x. if x = c then c\<lparr>c_documents := l\<rparr> else x) cs"
proof (induction cs)
  case Nil
  then show ?case by simp
next
  case (Cons x xs)
  show ?case
  proof (cases "c = x")
    case True
    with Cons.prems have n: "c_id c \<notin> set (map c_id xs)" by simp
    have "\<forall>y \<in> set xs. c_id y \<noteq> c_id c \<and> y \<noteq> c"
    proof (intro ballI conjI)
      fix y
      assume "y \<in> set xs"
      then have i: "c_id y \<in> set (map c_id xs)" by simp
      show d: "c_id y \<noteq> c_id c"
      proof
        assume "c_id y = c_id c"
        with i n show False by simp
      qed
      show "y \<noteq> c"
      proof
        assume "y = c"
        with d show False by simp
      qed
    qed
    then have "map (\<lambda>x. if c_id x = c_id c then x\<lparr>c_documents := l\<rparr> else x) xs = xs"
      and "map (\<lambda>x. if x = c then c\<lparr>c_documents := l\<rparr> else x) xs = xs"
      by (simp_all add: map_idI)
    with True show ?thesis by simp
  next
    case False
    with Cons.prems have m: "c \<in> set xs" by simp
    then have "c_id c \<in> set (map c_id xs)" by simp
    with Cons.prems have "c_id x \<noteq> c_id c" by auto
    with Cons.IH Cons.prems m False show ?thesis by simp
  qed
qed

lemma linkBuilder_keeps:
  "customers (snd (linkBuilder db now nd s)) = customers s
   \<and> isConnected (snd (linkBuilder db now nd s)) = isConnected s"
  by (simp add: linkBuilder_def split: option.splits prod.splits sum.splits)

lemma linkCustomer_isConnected:
  "isConnected (snd (linkCustomer db now nd s)) = isConnected s"
  by (simp add: linkCustomer_def split: option.splits prod.splits sum.splits)

lemma createCustomer_local:
  "\<exists>c. createCustomer False db now data' cs = (Inr (Some c), cs @ [c])
       \<and> c_phone c = or_field (pc_phone data') (or_str (pc_phone data') '''')"
  by (simp add: createCustomer_def Let_def spread_Customer_def)

lemma linkCustomer_local_new:
  assumes "\<not> isConnected s" "truthy_str (customerName nd)" "truthy_str (customerPhone nd)"
    and "getCustomerByPhone (customerPhone nd) (customers s) = None"
  shows "\<exists>c. linkCustomer db now nd s = (Inr (), s\<lparr>customers := customers s @ [c]\<rparr>)
           \<and> c_phone c = customerPhone nd"
proof -
  let ?d = "no_customer_fields\<lparr>pc_name := Some (customerName nd),
              pc_phone := Some (customerPhone nd), pc_email := customerEmail nd,
              pc_address := Some (propertyDetails nd), pc_documents := Some [d_id nd]\<rparr>"
  from createCustomer_local [of db now ?d "customers s"]
  obtain c where c: "createCustomer False db now ?d (customers s) = (Inr (Some c), customers s @ [c])"
    and p: "c_phone c = or_field (pc_phone ?d) (or_str (pc_phone ?d) '''')"
    by blast
  from p have q: "c_phone c = customerPhone nd"
    by (simp add: or_field_def)
  from assms c have "linkCustomer db now nd s = (Inr (), s\<lparr>customers := customers s @ [c]\<rparr>)"
    by (simp add: linkCustomer_def)
  with q show ?thesis by blast
qed

lemma linkCustomer_local_existing:
  assumes "\<not> isConnected s" "truthy_str (customerName nd)" "truthy_str (customerPhone nd)"
    and "getCustomerByPhone (customerPhone nd) (customers s) = Some c"
  shows "linkCustomer db now nd s =
           (Inr (), s\<lparr>customers := snd (addDocumentToCustomer False db (c_id c) (d_id nd) (customers s))\<rparr>)"
proof -
  obtain r cs where a: "addDocumentToCustomer False db (c_id c) (d_id nd) (customers s) = (r, cs)"
    by (cases "addDocumentToCustomer False db (c_id c) (d_id nd) (customers s)")
  with addDocumentToCustomer_local_ok [of db "c_id c" "d_id nd" "customers s"]
  have "r = Inr ()" by simp
  with assms a show ?thesis
    by (simp add: linkCustomer_def)
qed

lemma newLocalDocument_customer:
  "customerPhone (newLocalDocument now number data') =
     or_field (pd_customerPhone data') (or_str (pd_customerPhone data') '''')"
  "customerName (newLocalDocument now number data') =
     or_field (pd_customerName data') (or_str (pd_customerName data') '''')"
  by (simp_all add: newLocalDocument_def spread_Document_def)

lemma createDocument_local_result:
  assumes "\<not> isConnected s" and "createDocument db now data' s = (Inr r, s')"
  shows "\<exists>number. r = Some (newLocalDocument now number data')
           \<and> fst (linkCustomer db now (newLocalDocument now number data') s) = Inr ()
           \<and> customers s' = customers (snd (linkCustomer db now (newLocalDocument now number data') s))
           \<and> isConnected s' = isConnected s"
proof (cases "numberOrGenerate now data' (documents s)")
  case (Inl e)
  with assms show ?thesis by (simp add: createDocument_def)
next
  case (Inr number)
  let ?nd = "newLocalDocument now number data'"
  obtain a s1 where l: "linkCustomer db now ?nd s = (a, s1)"
    by (cases "linkCustomer db now ?nd s")
  obtain b s2 where k: "linkBuilder db now ?nd s1 = (b, s2)"
    by (cases "linkBuilder db now ?nd s1")
  from linkBuilder_keeps [of db now ?nd s1] k
  have kb: "customers s2 = customers s1" "isConnected s2 = isConnected s1" by simp_all
  from linkCustomer_isConnected [of db now ?nd s] l
  have kc: "isConnected s1 = isConnected s" by simp
  from assms Inr l k have "a = Inr () \<and> r = Some ?nd \<and> s' = s2\<lparr>documents := documents s2 @ [?nd]\<rparr>"
    by (cases a; cases b) (simp_all add: createDocument_def Let_def)
  with l kb kc show ?thesis by auto
qed

lemma createDocument_local_customers:
  assumes "\<not> isConnected s" and "createDocument db now data' s = (Inr r, s')"
    and "pd_customerPhone data' = Some p" and "p \<noteq> []" and "truthy_opt (pd_customerName data')"
  shows "\<exists>nd. r = Some nd \<and> isConnected s' = isConnected s \<and>
           (case getCustomerByPhone p (customers s) of
              None \<Rightarrow> \<exists>c. customers s' = customers s @ [c] \<and> c_phone c = p
            | Some c \<Rightarrow>
                customers s' = snd (addDocumentToCustomer False db (c_id c) (d_id nd) (customers s)))"
proof -
  from createDocument_local_result [OF assms(1,2)]
  obtain number where r: "r = Some (newLocalDocument now number data')"
    and cs: "customers s' = customers (snd (linkCustomer db now (newLocalDocument now number data') s))"
    and ic: "isConnected s' = isConnected s"
    by blast
  let ?nd = "newLocalDocument now number data'"
  from assms(3) have ph: "customerPhone ?nd = p"
    by (simp add: newLocalDocument_customer or_field_def)
  from assms(5) have nm: "truthy_str (customerName ?nd)"
    by (cases "pd_customerName data'")
       (simp_all add: newLocalDocument_customer or_field_def truthy_opt_def truthy_str_def)
  from ph assms(4) have tp: "truthy_str (customerPhone ?nd)"
    by (simp add: truthy_str_def)
  have "case getCustomerByPhone p (customers s) of
              None \<Rightarrow> \<exists>c. customers s' = customers s @ [c] \<and> c_phone c = p
            | Some c \<Rightarrow>
                customers s' = snd (addDocumentToCustomer False db (c_id c) (d_id ?nd) (customers s))"
  proof (cases "getCustomerByPhone p (customers s)")
    case None
    with ph have "getCustomerByPhone (customerPhone ?nd) (customers s) = None" by simp
    from linkCustomer_local_new [OF assms(1) nm tp this, of db now]
    obtain c where "linkCustomer db now ?nd s = (Inr (), s\<lparr>customers := customers s @ [c]\<rparr>)"
      and "c_phone c = customerPhone ?nd"
      by blast
    with cs ph have "customers s' = customers s @ [c] \<and> c_phone c = p" by simp
    with None show ?thesis by auto
  next
    case (Some c)
    with ph have "getCustomerByPhone (customerPhone ?nd) (customers s) = Some c" by simp
    from linkCustomer_local_existing [OF assms(1) nm tp this, of db now] cs Some
    show ?thesis by simp
  qed
  with r ic show ?thesis by blast
qed

lemma count_zero_iff:
  "(getCustomerByPhone p cs = None) \<longleftrightarrow> length (filter (\<lambda>c. c_phone c = p) cs) = 0"
  unfolding getCustomerByPhone_def by (induction cs) simp_all

lemma count_after_first:
  assumes "case getCustomerByPhone p cs of
              None \<Rightarrow> \<exists>c. cs' = cs @ [c] \<and> c_phone c = p
            | Some c \<Rightarrow> cs' = snd (addDocumentToCustomer False db (c_id c) did cs)"
  shows "getCustomerByPhone p cs' \<noteq> None
         \<and> length (filter (\<lambda>c. c_phone c = p) cs') = max 1 (length (filter (\<lambda>c. c_phone c = p) cs))"
proof (cases "getCustomerByPhone p cs")
  case None
  with assms obtain c where c: "cs' = cs @ [c]" "c_phone c = p" by auto
  from None have z: "length (filter (\<lambda>c. c_phone c = p) cs) = 0"
    by (simp add: count_zero_iff)
  with c have one: "length (filter (\<lambda>c. c_phone c = p) cs') = 1" by simp
  then have "getCustomerByPhone p cs' \<noteq> None" by (simp add: count_zero_iff)
  with one z show ?thesis by simp
next
  case (Some c)
  with assms have e: "cs' = snd (addDocumentToCustomer False db (c_id c) did cs)" by simp
  then have m: "map c_phone cs' = map c_phone cs" by (simp add: addDocumentToCustomer_phones)
  from Some have nz: "length (filter (\<lambda>c. c_phone c = p) cs) \<noteq> 0"
    using count_zero_iff [of p cs] by simp
  have same: "length (filter (\<lambda>c. c_phone c = p) cs') = length (filter (\<lambda>c. c_phone c = p) cs)"
    by (simp add: count_phone_map m)
  with nz have fnd: "getCustomerByPhone p cs' \<noteq> None"
    using count_zero_iff [of p cs'] by simp
  from nz have "max 1 (length (filter (\<lambda>c. c_phone c = p) cs)) = length (filter (\<lambda>c. c_phone c = p) cs)"
    by linarith
  with same fnd show ?thesis by simp
qed

text \<open>
  C4, as amended. In local mode, let two documents be created one after the other, both
  with a customer name and with the same non-empty customer phone, and let both creations
  succeed. Then the second creation finds a customer with that phone and creates none: the
  customer list keeps its length, and the number of customers with that phone is what it
  was before the first creation, or one if there was none. When the customer ids of the
  store are distinct, the second creation changes the customer list only at the customer
  found: if the new document's id is not yet in that customer's list it is appended to it,
  and if it is already there the list is left as it is.
\<close>

theorem createDocument_same_phone:
  "\<not> isConnected s0
   \<and> pd_customerPhone data1 = Some p \<and> pd_customerPhone data2 = Some p \<and> p \<noteq> []
   \<and> truthy_opt (pd_customerName data1) \<and> truthy_opt (pd_customerName data2)
   \<and> createDocument db1 now1 data1 s0 = (Inr r1, s1)
   \<and> createDocument db2 now2 data2 s1 = (Inr r2, s2) \<longrightarrow>
   (\<exists>doc2 c. r2 = Some doc2
      \<and> getCustomerByPhone p (customers s1) = Some c
      \<and> length (customers s2) = length (customers s1)
      \<and> length (filter (\<lambda>c. c_phone c = p) (customers s2)) =
          max 1 (length (filter (\<lambda>c. c_phone c = p) (customers s0)))
      \<and> (distinct (map c_id (customers s1)) \<and> d_id doc2 \<in> set (c_documents c) \<longrightarrow>
            customers s2 = customers s1)
      \<and> (distinct (map c_id (customers s1)) \<and> d_id doc2 \<notin> set (c_documents c) \<longrightarrow>
            customers s2 =
              map (\<lambda>x. if x = c then c\<lparr>c_documents := c_documents c @ [d_id doc2]\<rparr> else x)
                (customers s1)))"
proof
  assume a: "\<not> isConnected s0
   \<and> pd_customerPhone data1 = Some p \<and> pd_customerPhone data2 = Some p \<and> p \<noteq> []
   \<and> truthy_opt (pd_customerName data1) \<and> truthy_opt (pd_customerName data2)
   \<and> createDocument db1 now1 data1 s0 = (Inr r1, s1)
   \<and> createDocument db2 now2 data2 s1 = (Inr r2, s2)"
  then have l0: "\<not> isConnected s0" and p1: "pd_customerPhone data1 = Some p"
    and p2: "pd_customerPhone data2 = Some p" and pn: "p \<noteq> []"
    and n1: "truthy_opt (pd_customerName data1)" and n2: "truthy_opt (pd_customerName data2)"
    and c1: "createDocument db1 now1 data1 s0 = (Inr r1, s1)"
    and c2: "createDocument db2 now2 data2 s1 = (Inr r2, s2)"
    by simp_all
  from createDocument_local_customers [OF l0 c1 p1 pn n1]
  obtain doc1 where f: "r1 = Some doc1 \<and> isConnected s1 = isConnected s0 \<and>
           (case getCustomerByPhone p (customers s0) of
              None \<Rightarrow> \<exists>c. customers s1 = customers s0 @ [c] \<and> c_phone c = p
            | Some c \<Rightarrow>
                customers s1 = snd (addDocumentToCustomer False db1 (c_id c) (d_id doc1) (customers s0)))" ..
  then have l1': "isConnected s1 = isConnected s0"
    and first: "case getCustomerByPhone p (customers s0) of
              None \<Rightarrow> \<exists>c. customers s1 = customers s0 @ [c] \<and> c_phone c = p
            | Some c \<Rightarrow>
                customers s1 = snd (addDocumentToCustomer False db1 (c_id c) (d_id doc1) (customers s0))"
    by simp_all
  from l0 l1' have l1: "\<not> isConnected s1" by simp
  from count_after_first [OF first]
  have found: "getCustomerByPhone p (customers s1) \<noteq> None"
    and cnt1: "length (filter (\<lambda>c. c_phone c = p) (customers s1)) =
                 max 1 (length (filter (\<lambda>c. c_phone c = p) (customers s0)))"
    by simp_all
  from found obtain c where c: "getCustomerByPhone p (customers s1) = Some c" by auto
  from createDocument_local_customers [OF l1 c2 p2 pn n2]
  obtain doc2 where g: "r2 = Some doc2 \<and> isConnected s2 = isConnected s1 \<and>
           (case getCustomerByPhone p (customers s1) of
              None \<Rightarrow> \<exists>c. customers s2 = customers s1 @ [c] \<and> c_phone c = p
            | Some c \<Rightarrow>
                customers s2 = snd (addDocumentToCustomer False db2 (c_id c) (d_id doc2) (customers s1)))" ..
  with c have r2: "r2 = Some doc2"
    and second: "customers s2 =
                   snd (addDocumentToCustomer False db2 (c_id c) (d_id doc2) (customers s1))"
    by simp_all
  from second have ph: "map c_phone (customers s2) = map c_phone (customers s1)"
    by (simp add: addDocumentToCustomer_phones)
  then have "length (map c_phone (customers s2)) = length (map c_phone (customers s1))"
    by simp
  then have len: "length (customers s2) = length (customers s1)" by simp
  from ph cnt1 have cnt2: "length (filter (\<lambda>c. c_phone c = p) (customers s2)) =
          max 1 (length (filter (\<lambda>c. c_phone c = p) (customers s0)))"
    by (simp add: count_phone_map)
  from c have mem: "c \<in> set (customers s1)" by (rule getCustomerByPhone_member)
  have present: "distinct (map c_id (customers s1)) \<and> d_id doc2 \<in> set (c_documents c) \<longrightarrow>
            customers s2 = customers s1"
  proof
    assume h: "distinct (map c_id (customers s1)) \<and> d_id doc2 \<in> set (c_documents c)"
    with mem have "getCustomer (c_id c) (customers s1) = Some c"
      by (simp add: getCustomer_distinct)
    with h second show "customers s2 = customers s1"
      by (simp add: addDocumentToCustomer_present)
  qed
  have absent: "distinct (map c_id (customers s1)) \<and> d_id doc2 \<notin> set (c_documents c) \<longrightarrow>
            customers s2 =
              map (\<lambda>x. if x = c then c\<lparr>c_documents := c_documents c @ [d_id doc2]\<rparr> else x)
                (customers s1)"
  proof
    assume h: "distinct (map c_id (customers s1)) \<and> d_id doc2 \<notin> set (c_documents c)"
    with mem have "getCustomer (c_id c) (customers s1) = Some c"
      by (simp add: getCustomer_distinct)
    with h second have "customers s2 =
        map (\<lambda>x. if c_id x = c_id c then x\<lparr>c_documents := c_documents c @ [d_id doc2]\<rparr> else x)
          (customers s1)"
      by (simp add: addDocumentToCustomer_local)
    also from h mem have "\<dots> =
        map (\<lambda>x. if x = c then c\<lparr>c_documents := c_documents c @ [d_id doc2]\<rparr> else x)
          (customers s1)"
      by (simp add: map_by_id_distinct)
    finally show "customers s2 =
        map (\<lambda>x. if x = c then c\<lparr>c_documents := c_documents c @ [d_id doc2]\<rparr> else x)
          (customers s1)" .
  qed
  from r2 c len cnt2 present absent
  show "\<exists>doc2 c. r2 = Some doc2
      \<and> getCustomerByPhone p (customers s1) = Some c
      \<and> length (customers s2) = length (customers s1)
      \<and> length (filter (\<lambda>c. c_phone c = p) (customers s2)) =
          max 1 (length (filter (\<lambda>c. c_phone c = p) (customers s0)))
      \<and> (distinct (map c_id (customers s1)) \<and> d_id doc2 \<in> set (c_documents c) \<longrightarrow>
            customers s2 = customers s1)
      \<and> (distinct (map c_id (customers s1)) \<and> d_id doc2 \<notin> set (c_documents c) \<longrightarrow>
            customers s2 =
              map (\<lambda>x. if x = c then c\<lparr>c_documents := c_documents c @ [d_id doc2]\<rparr> else x)
                (customers s1))"
    by blast
qed

text \<open>The two creations of the scenario, evaluated in local mode.\<close>

lemma id_first: "toString_int (getTime now_2024) = ''1718445600000''"
  by (simp add: now_2024_def date_of_def toString_int_def toString_nat.simps digit_def)

lemma id_second: "toString_int (getTime now_evening) = ''1718478600000''"
  by (simp add: now_evening_def date_of_def toString_int_def toString_nat.simps digit_def)

lemma name_B_matches: "includes_str (toLowerCase ''B'') (toLowerCase ''B'')"
  by code_simp

lemma year_of_now: "getFullYear now_2024 = 2024" "getFullYear now_evening = 2024"
  by (simp_all add: now_2024_def now_evening_def date_of_def)

lemma first_creation:
  "createDocument remote_down now_2024 scenario_data empty_local = (Inr (Some first_doc), after_first)"
  by (simp add: createDocument_def scenario_data_def empty_local_def numberOrGenerate_def
      no_document_fields_def truthy_opt_def generate_first_agreement year_of_now year_2024
      first_doc_def after_first_def linkCustomer_def linkBuilder_def
      truthy_str_def getCustomerByPhone_def getBuilderByName_def createCustomer_def
      createBuilder_def generateCustomerId_def generateBuilderId_def seq_001
      no_customer_fields_def no_builder_fields_def spread_Customer_def spread_Builder_def Let_def
      newLocalDocument_customer or_field_def or_opt_def or_str_def)
     (simp add: newLocalDocument_def spread_Document_def first_customer_def first_builder_def
        id_first or_field_def or_opt_def or_str_def)

lemma generate_second_agreement:
  "generateDocumentNumber now_evening ''agreement'' [first_doc] = ''AGREEMENT/2024/002''"
  using prefix_agreement
  by (simp add: generateDocumentNumber_def typePrefix_def Let_def first_doc_def
      newLocalDocument_def spread_Document_def scenario_data_def no_document_fields_def
      or_opt_def year_of_now year_2024 seq_002)

lemma second_doc_fields:
  "d_id second_doc = ''DOC1718478600000''" "customerName second_doc = ''A''"
  "customerPhone second_doc = ''123''" "builderName second_doc = ''B''"
  by (simp_all add: second_doc_def newLocalDocument_def spread_Document_def scenario_data_def
      no_document_fields_def or_field_def or_str_def id_second)

lemma link_second_customer:
  "linkCustomer remote_down now_evening second_doc after_first =
     (Inr (), after_first
        \<lparr>customers := [first_customer\<lparr>c_documents := [''DOC1718445600000'', ''DOC1718478600000'']\<rparr>]\<rparr>)"
  by (simp add: linkCustomer_def second_doc_fields truthy_str_def after_first_def
      getCustomerByPhone_def first_customer_def addDocumentToCustomer_def getCustomer_def
      updateCustomer_def spread_Customer_def no_customer_fields_def or_field_def or_opt_def)

lemma link_second_builder:
  "linkBuilder remote_down now_evening second_doc
     (after_first\<lparr>customers := cs\<rparr>) =
     (Inr (), after_first
        \<lparr>customers := cs,
         builders := [first_builder\<lparr>b_documents := [''DOC1718445600000'', ''DOC1718478600000'']\<rparr>]\<rparr>)"
  using name_B_matches
  by (simp add: linkBuilder_def second_doc_fields truthy_str_def after_first_def
      getBuilderByName_def first_builder_def addDocumentToBuilder_def getBuilder_def
      updateBuilder_def spread_Builder_def no_builder_fields_def or_field_def or_opt_def)

lemma second_creation:
  "createDocument remote_down now_evening scenario_data after_first =
     (Inr (Some second_doc), after_second)"
proof -
  have n: "numberOrGenerate now_evening scenario_data (documents after_first) =
             Inr ''AGREEMENT/2024/002''"
    by (simp add: numberOrGenerate_def scenario_data_def no_document_fields_def truthy_opt_def
        after_first_def generate_second_agreement)
  have l: "\<not> isConnected after_first"
    by (simp add: after_first_def)
  show ?thesis
    using l
    by (simp add: createDocument_def n Let_def second_doc_def [symmetric] link_second_customer
        link_second_builder)
       (simp add: after_first_def after_second_def)
qed

theorem createDocument_same_phone_witness:
  "createDocument remote_down now_2024 scenario_data empty_local = (Inr (Some first_doc), after_first)
   \<and> createDocument remote_down now_evening scenario_data after_first =
        (Inr (Some second_doc), after_second)
   \<and> length (customers after_second) = length (customers after_first)
   \<and> length (filter (\<lambda>c. c_phone c = ''123'') (customers after_second)) = 1
   \<and> customers after_second =
        [first_customer\<lparr>c_documents := [''DOC1718445600000'', ''DOC1718478600000'']\<rparr>]"
proof -
  have h: "\<not> isConnected empty_local
     \<and> pd_customerPhone scenario_data = Some ''123'' \<and> pd_customerPhone scenario_data = Some ''123''
     \<and> ''123'' \<noteq> []
     \<and> truthy_opt (pd_customerName scenario_data) \<and> truthy_opt (pd_customerName scenario_data)
     \<and> createDocument remote_down now_2024 scenario_data empty_local =
          (Inr (Some first_doc), after_first)
     \<and> createDocument remote_down now_evening scenario_data after_first =
          (Inr (Some second_doc), after_second)"
    by (simp add: first_creation second_creation)
       (simp add: empty_local_def scenario_data_def no_document_fields_def truthy_opt_def)
  from createDocument_same_phone [of empty_local scenario_data "''123''" scenario_data
      remote_down now_2024 "Some first_doc" after_first remote_down now_evening
      "Some second_doc" after_second] h
  obtain doc2 c where d: "Some second_doc = Some doc2"
    and c: "getCustomerByPhone ''123'' (customers after_first) = Some c"
    and len: "length (customers after_second) = length (customers after_first)"
    and cnt: "length (filter (\<lambda>c. c_phone c = ''123'') (customers after_second)) =
          max 1 (length (filter (\<lambda>c. c_phone c = ''123'') (customers empty_local)))"
    and app: "distinct (map c_id (customers after_first)) \<and> d_id doc2 \<notin> set (c_documents c) \<longrightarrow>
            customers after_second =
              map (\<lambda>x. if x = c then c\<lparr>c_documents := c_documents c @ [d_id doc2]\<rparr> else x)
                (customers after_first)"
    by blast
  from d have d2: "doc2 = second_doc" by simp
  have cs: "customers after_first = [first_customer]"
    by (simp add: after_first_def)
  from c have c1: "c = first_customer"
    by (simp add: cs getCustomerByPhone_def first_customer_def)
  have docs: "c_documents first_customer = [''DOC1718445600000'']"
    by (simp add: first_customer_def)
  have new: "distinct (map c_id (customers after_first))
              \<and> d_id second_doc \<notin> set (c_documents first_customer)"
    by (simp add: cs docs second_doc_fields)
  from app new have "customers after_second =
      map (\<lambda>x. if x = first_customer
                 then first_customer\<lparr>c_documents := c_documents first_customer @ [d_id second_doc]\<rparr>
                 else x) (customers after_first)"
    unfolding d2 c1 by blast
  then have 5: "customers after_second =
        [first_customer\<lparr>c_documents := [''DOC1718445600000'', ''DOC1718478600000'']\<rparr>]"
    by (simp add: cs docs second_doc_fields)
  have e: "customers empty_local = []"
    by (simp add: empty_local_def)
  from cnt have 4: "length (filter (\<lambda>c. c_phone c = ''123'') (customers after_second)) = 1"
    unfolding e by simp
  from h len 4 5 show ?thesis by blast
qed

text \<open>The same two creations in connected mode, against a remote store that accepts every write.\<close>

lemma connected_first_creation:
  "createDocument remote_first now_2024 scenario_data connected_empty =
     (Inr None, connected_after_first)"
  by (simp add: createDocument_def scenario_data_def connected_empty_def numberOrGenerate_def
      no_document_fields_def truthy_opt_def remote_first_def inserted_def Let_def
      autoCreateCustomer_def autoCreateBuilder_def getCustomerByPhone_def getBuilderByName_def
      createCustomer_def createBuilder_def loadCustomersFromDatabase_def
      loadBuildersFromDatabase_def loadDocumentsFromDatabase_def last_elem_def or_str_def
      connected_after_first_def)

lemma connected_second_creation:
  "createDocument remote_second now_evening scenario_data connected_after_first =
     (Inr (Some doc_row_1), connected_after_first\<lparr>documents := [doc_row_2, doc_row_1]\<rparr>)"
  using name_B_matches
  by (simp add: createDocument_def scenario_data_def connected_after_first_def
      numberOrGenerate_def no_document_fields_def truthy_opt_def remote_second_def
      remote_first_def inserted_def Let_def autoCreateCustomer_def autoCreateBuilder_def
      getCustomerByPhone_def getBuilderByName_def customer_row_def builder_row_def
      loadDocumentsFromDatabase_def last_elem_def or_str_def)

text \<open>
  C4 as stated fails in connected mode. The first creation leaves the customer that the
  reload installs; the second creation finds that customer and does nothing to it, so the
  customer list is the same before and after, and neither the id nor the number of the
  second document is in the customer's list.
\<close>

theorem createDocument_same_phone_counterexample:
  "createDocument remote_first now_2024 scenario_data connected_empty =
     (Inr None, connected_after_first)
   \<and> createDocument remote_second now_evening scenario_data connected_after_first =
     (Inr (Some doc_row_1), connected_after_first\<lparr>documents := [doc_row_2, doc_row_1]\<rparr>)
   \<and> customers connected_after_first = [customer_row]
   \<and> customers (connected_after_first\<lparr>documents := [doc_row_2, doc_row_1]\<rparr>) = [customer_row]
   \<and> d_id doc_row_2 \<notin> set (c_documents customer_row)
   \<and> documentNumber doc_row_2 \<notin> set (c_documents customer_row)"
  by (simp add: connected_first_creation connected_second_creation)
     (simp add: connected_after_first_def customer_row_def doc_row_2_def doc_row_1_def)

end
